theory Spec2Isabelle
  imports Main
begin

section \<open>Python values used by the booking blueprint\<close>

subsection \<open>Binary64 floats\<close>

text \<open>
  A Python \<open>float\<close> is an IEEE 754 binary64 number. A finite one is kept as its integer
  significand and the exponent of its last bit, \<open>Finite m e\<close> standing for \<open>m * 2 ^ e\<close>,
  in the form the hardware has: \<open>2 ^ 52 \<le> \<bar>m\<bar> < 2 ^ 53\<close> with \<open>- 1074 \<le> e \<le> 971\<close> for a
  normal number, \<open>\<bar>m\<bar> < 2 ^ 52\<close> with \<open>e = - 1074\<close> for a subnormal one and for zero.
  The two zeros are not told apart (Python's \<open>==\<close> does not either).
\<close>

datatype pyfloat = Finite int int | PInf | NInf | NaN

fun bits_from :: "nat \<Rightarrow> nat \<Rightarrow> nat" where
  "bits_from k n = (if n = 0 then k else bits_from (k + 1) (n div 2))"

declare bits_from.simps [simp del]

definition bit_length :: "nat \<Rightarrow> nat" where
  \<comment> \<open>the number of binary digits of \<open>n\<close>\<close>
  "bit_length n = bits_from 0 n"

definition round_half_even :: "int \<Rightarrow> int \<Rightarrow> int" where
  \<comment> \<open>the integer nearest to \<open>n / d\<close> for \<open>0 < d\<close>, a tie going to the even neighbour\<close>
  "round_half_even n d =
     (let f = n div d; r = n mod d
      in if 2 * r < d then f else if d < 2 * r then f + 1
         else if even f then f else f + 1)"

definition ilog2 :: "int \<Rightarrow> int \<Rightarrow> int" where
  \<comment> \<open>\<open>\<lfloor>log\<^sub>2 (n / d)\<rfloor>\<close> for \<open>0 < n\<close> and \<open>0 < d\<close>\<close>
  "ilog2 n d =
     (let k = int (bit_length (nat n)) - int (bit_length (nat d))
      in if (if 0 \<le> k then d * 2 ^ nat k \<le> n else d \<le> n * 2 ^ nat (- k))
         then k else k - 1)"

definition fl :: "int \<Rightarrow> int \<Rightarrow> pyfloat" where
  \<comment> \<open>\<open>n / d\<close> (\<open>0 < d\<close>) rounded to the nearest binary64, ties to even; overflow gives
      an infinity\<close>
  "fl n d =
     (if n = 0 then Finite 0 (- 1074)
      else
        let a = \<bar>n\<bar>;
            e = max (ilog2 a d) (- 1022) - 52;
            m = (if 0 \<le> e then round_half_even a (d * 2 ^ nat e)
                 else round_half_even (a * 2 ^ nat (- e)) d);
            m' = (if m = 2 ^ 53 then 2 ^ 52 else m);
            e' = (if m = 2 ^ 53 then e + 1 else e)
        in if 971 < e' then (if 0 < n then PInf else NInf)
           else Finite (if 0 < n then m' else - m') e')"

definition fl_dyadic :: "int \<Rightarrow> int \<Rightarrow> pyfloat" where
  \<comment> \<open>\<open>m * 2 ^ e\<close> rounded to binary64\<close>
  "fl_dyadic m e = (if 0 \<le> e then fl (m * 2 ^ nat e) 1 else fl m (2 ^ nat (- e)))"

definition fadd :: "pyfloat \<Rightarrow> pyfloat \<Rightarrow> pyfloat" where
  "fadd x y =
     (case (x, y) of
        (NaN, _) \<Rightarrow> NaN
      | (_, NaN) \<Rightarrow> NaN
      | (PInf, NInf) \<Rightarrow> NaN
      | (NInf, PInf) \<Rightarrow> NaN
      | (PInf, _) \<Rightarrow> PInf
      | (NInf, _) \<Rightarrow> NInf
      | (_, PInf) \<Rightarrow> PInf
      | (_, NInf) \<Rightarrow> NInf
      | (Finite m1 e1, Finite m2 e2) \<Rightarrow>
          (if m1 = 0 then y else if m2 = 0 then x
           else let e = min e1 e2
                in fl_dyadic (m1 * 2 ^ nat (e1 - e) + m2 * 2 ^ nat (e2 - e)) e))"

definition fmul :: "pyfloat \<Rightarrow> pyfloat \<Rightarrow> pyfloat" where
  "fmul x y =
     (case (x, y) of
        (NaN, _) \<Rightarrow> NaN
      | (_, NaN) \<Rightarrow> NaN
      | (Finite m1 e1, Finite m2 e2) \<Rightarrow> fl_dyadic (m1 * m2) (e1 + e2)
      | (Finite m e, PInf) \<Rightarrow> (if m = 0 then NaN else if 0 < m then PInf else NInf)
      | (Finite m e, NInf) \<Rightarrow> (if m = 0 then NaN else if 0 < m then NInf else PInf)
      | (PInf, Finite m e) \<Rightarrow> (if m = 0 then NaN else if 0 < m then PInf else NInf)
      | (NInf, Finite m e) \<Rightarrow> (if m = 0 then NaN else if 0 < m then NInf else PInf)
      | (PInf, PInf) \<Rightarrow> PInf
      | (NInf, NInf) \<Rightarrow> PInf
      | (PInf, NInf) \<Rightarrow> NInf
      | (NInf, PInf) \<Rightarrow> NInf)"

datatype py_exception =
  TypeError | ValueError | OverflowError | AttributeError

definition float_of_int :: "int \<Rightarrow> py_exception + pyfloat" where
  \<comment> \<open>\<open>float(n)\<close> for an \<open>int\<close>: correctly rounded, OverflowError beyond the range\<close>
  "float_of_int n =
     (case fl n 1 of PInf \<Rightarrow> Inl OverflowError | NInf \<Rightarrow> Inl OverflowError | x \<Rightarrow> Inr x)"

definition py_round2 :: "pyfloat \<Rightarrow> pyfloat" where
  \<comment> \<open>\<open>round(x, 2)\<close>: the exact value of \<open>x\<close> rounded half-even to two decimals, then
      to the nearest float; infinities and NaN round to themselves\<close>
  "py_round2 x =
     (case x of
        Finite m e \<Rightarrow>
          fl (if 0 \<le> e then m * 2 ^ nat e * 100
              else round_half_even (m * 100) (2 ^ nat (- e))) 100
      | _ \<Rightarrow> x)"

definition py_int :: "pyfloat \<Rightarrow> py_exception + int" where
  \<comment> \<open>\<open>int(x)\<close>: truncation towards zero; ValueError on NaN, OverflowError on an infinity\<close>
  "py_int x =
     (case x of
        Finite m e \<Rightarrow>
          Inr (if 0 \<le> e then m * 2 ^ nat e
               else if 0 \<le> m then m div 2 ^ nat (- e) else - ((- m) div 2 ^ nat (- e)))
      | NaN \<Rightarrow> Inl ValueError
      | _ \<Rightarrow> Inl OverflowError)"

definition py_round :: "pyfloat \<Rightarrow> py_exception + int" where
  \<comment> \<open>\<open>round(x)\<close>: the nearest integer, ties to even\<close>
  "py_round x =
     (case x of
        Finite m e \<Rightarrow>
          Inr (if 0 \<le> e then m * 2 ^ nat e else round_half_even m (2 ^ nat (- e)))
      | NaN \<Rightarrow> Inl ValueError
      | _ \<Rightarrow> Inl OverflowError)"

subsection \<open>JSON values and the conversions the total uses\<close>

text \<open>
  The request body is parsed JSON. A JSON object is a Python \<open>dict\<close>: its pairs are kept
  in insertion order, which is the order \<open>values()\<close> walks them in, and a well-formed one
  has no key twice.
\<close>

text \<open>
  A Python \<open>str\<close> is a sequence of Unicode code points; \<open>ustr\<close> gives the code points
  of a literal of ASCII characters.
\<close>

type_synonym unicode = "nat list"

definition ord :: "char \<Rightarrow> nat" where
  "ord c = of_char c"

definition ustr :: "string \<Rightarrow> unicode" where
  "ustr s = map ord s"

datatype json =
    JNull
  | JBool bool
  | JInt int
  | JFloat pyfloat
  | JStr unicode
  | JList "json list"
  | JDict "(unicode \<times> json) list"

definition truthy :: "json \<Rightarrow> bool" where
  "truthy v =
     (case v of
        JNull \<Rightarrow> False
      | JBool b \<Rightarrow> b
      | JInt n \<Rightarrow> n \<noteq> 0
      | JFloat x \<Rightarrow> (case x of Finite m e \<Rightarrow> m \<noteq> 0 | _ \<Rightarrow> True)
      | JStr s \<Rightarrow> s \<noteq> []
      | JList xs \<Rightarrow> xs \<noteq> []
      | JDict kvs \<Rightarrow> kvs \<noteq> [])"

definition py_or :: "json \<Rightarrow> json \<Rightarrow> json" where
  \<comment> \<open>\<open>a or b\<close>\<close>
  "py_or a b = (if truthy a then a else b)"

definition py_get :: "json \<Rightarrow> unicode \<Rightarrow> json \<Rightarrow> py_exception + json" where
  \<comment> \<open>\<open>d.get(k, default)\<close>; only a dict has the method\<close>
  "py_get d k dflt =
     (case d of
        JDict kvs \<Rightarrow> (case map_of kvs k of Some v \<Rightarrow> Inr v | None \<Rightarrow> Inr dflt)
      | _ \<Rightarrow> Inl AttributeError)"

definition py_values :: "json \<Rightarrow> py_exception + json list" where
  \<comment> \<open>\<open>d.values()\<close>\<close>
  "py_values d = (case d of JDict kvs \<Rightarrow> Inr (map snd kvs) | _ \<Rightarrow> Inl AttributeError)"

definition isinstance_dict :: "json \<Rightarrow> bool" where
  "isinstance_dict d = (case d of JDict kvs \<Rightarrow> True | _ \<Rightarrow> False)"

text \<open>
  \<open>float(s)\<close> for a string. A string with a character outside ASCII is first brought
  to ASCII: a Unicode white space becomes a blank and a Unicode decimal digit the ASCII
  digit of its value; at the first other character from U+007F on, the string is cut
  and ends in a question mark. The tables are those of Unicode 14.0, which CPython 3.11
  carries: the white-space characters, and the zeros of the 66 runs of ten decimal
  digits. Then surrounding ASCII white space is dropped, an underscore may stand between
  two digits only, and what remains is an optional sign followed by \<open>inf\<close>, \<open>infinity\<close>
  or \<open>nan\<close> in any case, or by a decimal numeral with an optional exponent. Anything
  else is a ValueError. A numeral beyond the range of a float gives an infinity.
\<close>

definition unicode_isspace :: "nat \<Rightarrow> bool" where
  "unicode_isspace c =
     (c \<in> set
       [9, 10, 11, 12, 13, 28, 29, 30, 31, 32, 133, 160, 5760, 8192, 8193, 8194, 8195,
        8196, 8197, 8198, 8199, 8200, 8201, 8202, 8232, 8233, 8239, 8287, 12288])"

definition decimal_zeros :: "nat list" where
  "decimal_zeros =
     [48, 1632, 1776, 1984, 2406, 2534, 2662, 2790, 2918, 3046, 3174, 3302, 3430, 3558,
      3664, 3792, 3872, 4160, 4240, 6112, 6160, 6470, 6608, 6784, 6800, 6992, 7088,
      7232, 7248, 42528, 43216, 43264, 43472, 43504, 43600, 44016, 65296, 66720, 68912,
      69734, 69872, 69942, 70096, 70384, 70736, 70864, 71248, 71360, 71472, 71904,
      72016, 72784, 73040, 73120, 92768, 92864, 93008, 120782, 120792, 120802, 120812,
      120822, 123200, 123632, 125264, 130032]"

definition unicode_decimal :: "nat \<Rightarrow> nat option" where
  "unicode_decimal c =
     (case filter (\<lambda>z. z \<le> c \<and> c < z + 10) decimal_zeros of
        [] \<Rightarrow> None
      | z # zs \<Rightarrow> Some (c - z))"

fun to_ascii :: "unicode \<Rightarrow> unicode" where
  "to_ascii [] = []"
| "to_ascii (c # cs) =
     (if c < 127 then c # to_ascii cs
      else if unicode_isspace c then ord CHR '' '' # to_ascii cs
      else (case unicode_decimal c of
              Some k \<Rightarrow> (ord CHR ''0'' + k) # to_ascii cs
            | None \<Rightarrow> [ord CHR ''?'']))"

definition decimal_and_space_to_ascii :: "unicode \<Rightarrow> unicode" where
  "decimal_and_space_to_ascii s = (if list_all (\<lambda>c. c < 128) s then s else to_ascii s)"

definition is_space :: "nat \<Rightarrow> bool" where
  "is_space c = (c \<in> set [32, 9, 10, 11, 12, 13])"

definition strip :: "unicode \<Rightarrow> unicode" where
  "strip s = rev (dropWhile is_space (rev (dropWhile is_space s)))"

definition is_digit :: "nat \<Rightarrow> bool" where
  "is_digit c = (ord CHR ''0'' \<le> c \<and> c \<le> ord CHR ''9'')"

definition digit_val :: "nat \<Rightarrow> nat" where
  "digit_val c = c - ord CHR ''0''"

definition nat_of_digits :: "unicode \<Rightarrow> nat" where
  "nat_of_digits ds = foldl (\<lambda>n c. 10 * n + digit_val c) 0 ds"

definition lower :: "nat \<Rightarrow> nat" where
  "lower c = (if ord CHR ''A'' \<le> c \<and> c \<le> ord CHR ''Z'' then c + 32 else c)"

fun underscores_ok :: "nat \<Rightarrow> unicode \<Rightarrow> bool" where
  "underscores_ok prev [] = (prev \<noteq> ord CHR ''_'')"
| "underscores_ok prev (c # cs) =
     ((if c = ord CHR ''_'' then is_digit prev
       else if prev = ord CHR ''_'' then is_digit c else True)
      \<and> underscores_ok c cs)"

definition parse_sign :: "unicode \<Rightarrow> bool \<times> unicode" where
  "parse_sign s =
     (case s of
        c # cs \<Rightarrow> (if c = ord CHR ''-'' then (True, cs)
                   else if c = ord CHR ''+'' then (False, cs) else (False, s))
      | [] \<Rightarrow> (False, s))"

definition parse_exponent :: "unicode \<Rightarrow> int option" where
  "parse_exponent s =
     (case s of
        [] \<Rightarrow> Some 0
      | c # cs \<Rightarrow>
          (if c = ord CHR ''e'' \<or> c = ord CHR ''E'' then
             (case parse_sign cs of
                (neg, ds) \<Rightarrow>
                  (if ds \<noteq> [] \<and> list_all is_digit ds
                   then Some (if neg then - int (nat_of_digits ds) else int (nat_of_digits ds))
                   else None))
           else None))"

definition parse_decimal :: "bool \<Rightarrow> unicode \<Rightarrow> py_exception + pyfloat" where
  "parse_decimal neg s =
     (let ip = takeWhile is_digit s;
          r1 = dropWhile is_digit s;
          fp = (case r1 of c # cs \<Rightarrow> (if c = ord CHR ''.'' then takeWhile is_digit cs else [])
                | [] \<Rightarrow> []);
          r2 = (case r1 of c # cs \<Rightarrow> (if c = ord CHR ''.'' then dropWhile is_digit cs else r1)
                | [] \<Rightarrow> [])
      in if ip = [] \<and> fp = [] then Inl ValueError
         else
           (case parse_exponent r2 of
              None \<Rightarrow> Inl ValueError
            | Some x \<Rightarrow>
                (let m = int (nat_of_digits (ip @ fp));
                     n = (if neg then - m else m);
                     k = x - int (length fp)
                 in Inr (if 0 \<le> k then fl (n * 10 ^ nat k) 1 else fl n (10 ^ nat (- k))))))"

definition float_of_str :: "unicode \<Rightarrow> py_exception + pyfloat" where
  "float_of_str s =
     (let t = strip (decimal_and_space_to_ascii s)
      in if \<not> underscores_ok 0 t then Inl ValueError
         else
           (case parse_sign (filter (\<lambda>c. c \<noteq> ord CHR ''_'') t) of
              (neg, body) \<Rightarrow>
                (if map lower body = ustr ''inf'' \<or> map lower body = ustr ''infinity''
                 then Inr (if neg then NInf else PInf)
                 else if map lower body = ustr ''nan'' then Inr NaN
                 else parse_decimal neg body)))"

definition py_float :: "json \<Rightarrow> py_exception + pyfloat" where
  \<comment> \<open>\<open>float(v)\<close>\<close>
  "py_float v =
     (case v of
        JNull \<Rightarrow> Inl TypeError
      | JBool b \<Rightarrow> float_of_int (if b then 1 else 0)
      | JInt n \<Rightarrow> float_of_int n
      | JFloat x \<Rightarrow> Inr x
      | JStr s \<Rightarrow> float_of_str s
      | JList xs \<Rightarrow> Inl TypeError
      | JDict kvs \<Rightarrow> Inl TypeError)"

section \<open>The booking and its total\<close>

text \<open>
  The \<open>Booking\<close> model class is imported by the blueprint from a module that is not part
  of the sources at hand; the record has the columns the blueprint reads and writes.
  The primary key is the key under which the store holds the row.
\<close>

record booking =
  user_id :: "int option"
  status :: string
  total_amount :: pyfloat
  search_data :: json
  selection_data :: json
  travelers_data :: json
  addons_data :: json
  review_data :: json

definition zero_float :: pyfloat where
  "zero_float = Finite 0 (- 1074)"

definition price_term :: "json \<Rightarrow> py_exception + pyfloat" where
  \<comment> \<open>\<open>float(sel.get('price', 0) or 0)\<close>\<close>
  "price_term sel =
     (case py_get sel (ustr ''price'') (JInt 0) of
        Inl ex \<Rightarrow> Inl ex
      | Inr p \<Rightarrow> py_float (py_or p (JInt 0)))"

fun add_values :: "pyfloat \<Rightarrow> json list \<Rightarrow> pyfloat" where
  \<comment> \<open>the loop over \<open>addons.values()\<close>: a value whose conversion raises is passed over\<close>
  "add_values tot [] = tot"
| "add_values tot (v # vs) =
     (case py_float (py_or v (JInt 0)) of
        Inr x \<Rightarrow> add_values (fadd tot x) vs
      | Inl ex \<Rightarrow> add_values tot vs)"

definition recompute_total :: "booking \<Rightarrow> py_exception + booking" where
  "recompute_total b =
     (let sel = py_or (selection_data b) (JDict []);
          tot = (case price_term sel of
                   Inr x \<Rightarrow> fadd zero_float x
                 | Inl ex \<Rightarrow> zero_float);
          addons = py_or (addons_data b) (JDict [])
      in case (if isinstance_dict addons
               then (case py_values addons of
                       Inl ex \<Rightarrow> Inl ex
                     | Inr vs \<Rightarrow> Inr (add_values tot vs))
               else Inr tot) of
           Inl ex \<Rightarrow> Inl ex
         | Inr tot' \<Rightarrow> Inr (b\<lparr>total_amount := py_round2 tot'\<rparr>))"

section \<open>The store, the caller and the payment processor\<close>

text \<open>
  The \<open>Payment\<close> model class is not among the sources either; the record has the fields
  the blueprint passes to its constructor. Rows get their primary key when the session
  commits them, from a counter.
\<close>

record payment =
  payment_booking_id :: int
  amount :: pyfloat
  payment_status :: string
  provider :: string
  txn_ref :: string

record db =
  bookings :: "int \<rightharpoonup> booking"
  payments :: "(int \<times> payment) list"
  next_booking_id :: int
  next_payment_id :: int

datatype user = Anonymous | LoggedIn int

text \<open>
  The handlers read the request body with \<open>get\<close>, as a JSON object (an absent or
  unparseable body counts as the empty object): \<open>booking_id\<close> is absent, null or an
  integer, \<open>data\<close> and \<open>payment_intent_id\<close> are any JSON value, null when absent.
\<close>

record payload =
  booking_id :: "int option"
  data :: json
  payment_intent_id :: json

record stripe_intent =
  intent_id :: string
  intent_status :: string
  intent_amount :: int
  client_secret :: string

text \<open>
  The processor's client is a parameter: each call returns an intent or raises a
  \<open>StripeError\<close> with a message (\<open>Inl\<close>).
\<close>

record stripe_api =
  create_intent :: "int \<Rightarrow> int \<Rightarrow> string + stripe_intent"
  retrieve_intent :: "json \<Rightarrow> string + stripe_intent"
  confirm_intent :: "json \<Rightarrow> string + stripe_intent"

datatype failure =
    Unauthorized
  | NotFound
  | Forbidden
  | InvalidStep
  | PaymentNotReady
  | PaymentFailed
  | AmountMismatch
  | ProviderError string
  | ServerError py_exception

datatype response =
    Saved int pyfloat "string option"
  | ReadyForPayment int pyfloat string
  | IntentCreated string string
  | PaymentSuccess int string int string
  | Cancelled int

definition new_booking :: "int option \<Rightarrow> booking" where
  \<comment> \<open>Modelled from the spec: the column defaults of the absent \<open>Booking\<close> class, a draft
      with no data and a total of 0.\<close>
  "new_booking owner =
     \<lparr>user_id = owner, status = ''draft'', total_amount = zero_float,
      search_data = JNull, selection_data = JNull, travelers_data = JNull,
      addons_data = JNull, review_data = JNull\<rparr>"

definition commit :: "int \<Rightarrow> booking \<Rightarrow> db \<Rightarrow> db" where
  \<comment> \<open>\<open>db.session.commit()\<close> with the request's booking as the changed row\<close>
  "commit i b d = d\<lparr>bookings := (bookings d)(i \<mapsto> b)\<rparr>"

definition get_or_404 :: "int option \<Rightarrow> db \<Rightarrow> failure + int \<times> booking" where
  "get_or_404 bid d =
     (case bid of
        None \<Rightarrow> Inl NotFound
      | Some i \<Rightarrow> (case bookings d i of None \<Rightarrow> Inl NotFound | Some b \<Rightarrow> Inr (i, b)))"

definition get_or_create_booking ::
  "user \<Rightarrow> int option \<Rightarrow> db \<Rightarrow> failure + int \<times> booking \<times> db" where
  "get_or_create_booking u bid d =
     (if bid \<noteq> None \<and> bid \<noteq> Some 0 then
        (case get_or_404 bid d of Inl f \<Rightarrow> Inl f | Inr (i, b) \<Rightarrow> Inr (i, b, d))
      else
        (let b = new_booking (case u of LoggedIn uid \<Rightarrow> Some uid | Anonymous \<Rightarrow> None);
             i = next_booking_id d
         in Inr (i, b, (commit i b d)\<lparr>next_booking_id := i + 1\<rparr>)))"

definition attach_to_current_user_if_needed ::
  "user \<Rightarrow> int \<Rightarrow> booking \<Rightarrow> db \<Rightarrow> bool \<times> booking \<times> db" where
  "attach_to_current_user_if_needed u i b d =
     (case u of
        LoggedIn uid \<Rightarrow>
          (let b' = (if user_id b = None then b\<lparr>user_id := Some uid\<rparr> else b);
               d' = (if user_id b = None then commit i b' d else d)
           in if user_id b' \<noteq> Some uid then (False, b', d') else (True, b', d'))
      | Anonymous \<Rightarrow> (True, b, d))"

fun str_nat :: "nat \<Rightarrow> string" where
  "str_nat n =
     (if n < 10 then [''0123456789'' ! n]
      else str_nat (n div 10) @ [''0123456789'' ! (n mod 10)])"

declare str_nat.simps [simp del]

definition str_int :: "int \<Rightarrow> string" where
  "str_int i = (if i < 0 then CHR ''-'' # str_nat (nat (- i)) else str_nat (nat i))"

definition STEP_TO_PAGE :: "(nat \<times> string) list" where
  "STEP_TO_PAGE =
     [(0, ''booking1.html''), (1, ''booking2.html''), (2, ''booking3.html''),
      (3, ''booking4.html''), (4, ''checkout.html'')]"

definition next_url_for_step :: "nat \<Rightarrow> int \<Rightarrow> string option" where
  "next_url_for_step step i =
     (case map_of STEP_TO_PAGE step of
        None \<Rightarrow> None
      | Some page \<Rightarrow>
          (if page = [] then None else Some (''/'' @ page @ ''?booking_id='' @ str_int i)))"

section \<open>The operations\<close>

text \<open>
  Each handler takes the caller, the parsed request body and the store, and returns its
  outcome with the store as the request leaves it. A change made to a row and not
  committed is dropped with the request's session. The rate limits in front of the
  handlers are another component's.
\<close>

definition write_slot :: "nat \<Rightarrow> json \<Rightarrow> booking \<Rightarrow> booking option" where
  "write_slot step v b =
     (if step = 0 then Some (b\<lparr>search_data := v\<rparr>)
      else if step = 1 then Some (b\<lparr>selection_data := v\<rparr>)
      else if step = 2 then Some (b\<lparr>travelers_data := v\<rparr>)
      else if step = 3 then Some (b\<lparr>addons_data := v\<rparr>)
      else if step = 4 then Some (b\<lparr>review_data := v\<rparr>)
      else None)"

definition save_step :: "user \<Rightarrow> nat \<Rightarrow> payload \<Rightarrow> db \<Rightarrow> (failure + response) \<times> db" where
  "save_step u step p d =
     (case get_or_create_booking u (booking_id p) d of
        Inl f \<Rightarrow> (Inl f, d)
      | Inr (i, b, d1) \<Rightarrow>
          (case attach_to_current_user_if_needed u i b d1 of
             (ok, b2, d2) \<Rightarrow>
               if \<not> ok then (Inl Forbidden, d2)
               else
                 (case write_slot step (data p) b2 of
                    None \<Rightarrow> (Inl InvalidStep, d2)
                  | Some b3 \<Rightarrow>
                      (case recompute_total b3 of
                         Inl ex \<Rightarrow> (Inl (ServerError ex), d2)
                       | Inr b4 \<Rightarrow>
                           (Inr (Saved i (total_amount b4) (next_url_for_step step i)),
                            commit i b4 d2)))))"

definition confirm_booking :: "user \<Rightarrow> payload \<Rightarrow> db \<Rightarrow> (failure + response) \<times> db" where
  "confirm_booking u p d =
     (if u = Anonymous then (Inl Unauthorized, d)
      else
        (case get_or_404 (booking_id p) d of
           Inl f \<Rightarrow> (Inl f, d)
         | Inr (i, b) \<Rightarrow>
             (case attach_to_current_user_if_needed u i b d of
                (ok, b1, d1) \<Rightarrow>
                  if \<not> ok then (Inl Forbidden, d1)
                  else
                    (case recompute_total (b1\<lparr>status := ''in_progress''\<rparr>) of
                       Inl ex \<Rightarrow> (Inl (ServerError ex), d1)
                     | Inr b2 \<Rightarrow>
                         (Inr (ReadyForPayment i (total_amount b2)
                                 (''/checkout.html?booking_id='' @ str_int i)),
                          commit i b2 d1)))))"

definition str_exception :: "py_exception \<Rightarrow> string" where
  \<comment> \<open>\<open>str(e)\<close> for what \<open>int\<close> raises on a float\<close>
  "str_exception ex =
     (case ex of
        ValueError \<Rightarrow> ''cannot convert float NaN to integer''
      | OverflowError \<Rightarrow> ''cannot convert float infinity to integer''
      | _ \<Rightarrow> [])"

definition minor_units :: "pyfloat \<Rightarrow> py_exception + int" where
  \<comment> \<open>\<open>int(booking.total_amount * 100)\<close>\<close>
  "minor_units x = py_int (fmul x (fl 100 1))"

definition create_payment_intent ::
  "stripe_api \<Rightarrow> user \<Rightarrow> payload \<Rightarrow> db \<Rightarrow> (failure + response) \<times> db" where
  "create_payment_intent api u p d =
     (if u = Anonymous then (Inl Unauthorized, d)
      else
        (case get_or_404 (booking_id p) d of
           Inl f \<Rightarrow> (Inl f, d)
         | Inr (i, b) \<Rightarrow>
             (case attach_to_current_user_if_needed u i b d of
                (ok, b1, d1) \<Rightarrow>
                  if \<not> ok then (Inl Forbidden, d1)
                  else
                    (case recompute_total b1 of
                       Inl ex \<Rightarrow> (Inl (ServerError ex), d1)
                     | Inr b2 \<Rightarrow>
                         (case minor_units (total_amount b2) of
                            Inl ex \<Rightarrow> (Inl (ProviderError (str_exception ex)), d1)
                          | Inr cents \<Rightarrow>
                              (case create_intent api cents i of
                                 Inl msg \<Rightarrow> (Inl (ProviderError msg), d1)
                               | Inr it \<Rightarrow>
                                   (Inr (IntentCreated (client_secret it) (intent_id it)),
                                    d1)))))))"

definition settle_intent :: "stripe_api \<Rightarrow> json \<Rightarrow> failure + stripe_intent" where
  \<comment> \<open>retrieve the intent and confirm it when it asks for that\<close>
  "settle_intent api pid =
     (case retrieve_intent api pid of
        Inl msg \<Rightarrow> Inl (ProviderError msg)
      | Inr it \<Rightarrow>
          (if intent_status it = ''requires_confirmation'' then
             (case confirm_intent api pid of
                Inl msg \<Rightarrow> Inl (ProviderError msg)
              | Inr it' \<Rightarrow> Inr it')
           else if intent_status it = ''succeeded'' then Inr it
           else Inl PaymentNotReady))"

definition pay :: "stripe_api \<Rightarrow> user \<Rightarrow> payload \<Rightarrow> db \<Rightarrow> (failure + response) \<times> db" where
  "pay api u p d =
     (if u = Anonymous then (Inl Unauthorized, d)
      else
        (case get_or_404 (booking_id p) d of
           Inl f \<Rightarrow> (Inl f, d)
         | Inr (i, b) \<Rightarrow>
             (case attach_to_current_user_if_needed u i b d of
                (ok, b1, d1) \<Rightarrow>
                  if \<not> ok then (Inl Forbidden, d1)
                  else
                    (case recompute_total b1 of
                       Inl ex \<Rightarrow> (Inl (ServerError ex), d1)
                     | Inr b2 \<Rightarrow>
                         (case settle_intent api (payment_intent_id p) of
                            Inl f \<Rightarrow> (Inl f, d1)
                          | Inr it \<Rightarrow>
                              if intent_status it \<noteq> ''succeeded'' then (Inl PaymentFailed, d1)
                              else
                                (case minor_units (total_amount b2) of
                                   Inl ex \<Rightarrow> (Inl (ServerError ex), d1)
                                 | Inr cents \<Rightarrow>
                                     if intent_amount it \<noteq> cents then (Inl AmountMismatch, d1)
                                     else
                                       (let pm = \<lparr>payment_booking_id = i,
                                                  amount = total_amount b2,
                                                  payment_status = ''success'',
                                                  provider = ''stripe'',
                                                  txn_ref = intent_id it\<rparr>;
                                            k = next_payment_id d1
                                        in (Inr (PaymentSuccess k (txn_ref pm) i
                                                   (''/dashboard.html?booking_id='' @ str_int i)),
                                            (commit i (b2\<lparr>status := ''confirmed''\<rparr>) d1)
                                              \<lparr>payments := payments d1 @ [(k, pm)],
                                               next_payment_id := k + 1\<rparr>))))))))"

definition cancel :: "user \<Rightarrow> payload \<Rightarrow> db \<Rightarrow> (failure + response) \<times> db" where
  "cancel u p d =
     (if u = Anonymous then (Inl Unauthorized, d)
      else
        (case get_or_404 (booking_id p) d of
           Inl f \<Rightarrow> (Inl f, d)
         | Inr (i, b) \<Rightarrow>
             (case attach_to_current_user_if_needed u i b d of
                (ok, b1, d1) \<Rightarrow>
                  if \<not> ok then (Inl Forbidden, d1)
                  else (Inr (Cancelled i), commit i (b1\<lparr>status := ''cancelled''\<rparr>) d1))))"

section \<open>The total in closed form\<close>

text \<open>
  Two readings of the total. \<open>spec_total\<close> follows the specification's words: the
  selection's price plus the add-on values that are JSON numbers, everything else
  counting as 0. \<open>converted_total\<close> counts every value that \<open>float(v or 0)\<close> accepts.
\<close>

definition price_value :: "json \<Rightarrow> json" where
  "price_value sel =
     (case sel of
        JDict kvs \<Rightarrow>
          (case map_of kvs (ustr ''price'') of Some v \<Rightarrow> v | None \<Rightarrow> JInt 0)
      | _ \<Rightarrow> JInt 0)"

definition addon_values :: "json \<Rightarrow> json list" where
  "addon_values addons = (case addons of JDict kvs \<Rightarrow> map snd kvs | _ \<Rightarrow> [])"

definition numeric_value :: "json \<Rightarrow> pyfloat" where
  "numeric_value v =
     (case v of
        JInt n \<Rightarrow> (case float_of_int n of Inr x \<Rightarrow> x | Inl ex \<Rightarrow> zero_float)
      | JFloat x \<Rightarrow> x
      | _ \<Rightarrow> zero_float)"

definition spec_total :: "booking \<Rightarrow> pyfloat" where
  "spec_total b =
     py_round2 (foldl fadd (numeric_value (price_value (selection_data b)))
                  (map numeric_value (addon_values (addons_data b))))"

definition counted :: "json \<Rightarrow> pyfloat option" where
  "counted v = (case py_float (py_or v (JInt 0)) of Inr x \<Rightarrow> Some x | Inl ex \<Rightarrow> None)"

definition converted_total :: "booking \<Rightarrow> pyfloat" where
  "converted_total b =
     py_round2 (foldl fadd zero_float
                  (List.map_filter counted
                     (price_value (selection_data b) # addon_values (addons_data b))))"

definition owner_of :: "user \<Rightarrow> int option" where
  "owner_of u = (case u of LoggedIn uid \<Rightarrow> Some uid | Anonymous \<Rightarrow> None)"

definition fresh_ids :: "db \<Rightarrow> bool" where
  \<comment> \<open>the key counter is positive and beyond every key in use\<close>
  "fresh_ids d =
     (0 < next_booking_id d \<and> (\<forall>i b. bookings d i = Some b \<longrightarrow> 0 < i \<and> i < next_booking_id d))"

definition read_slot :: "nat \<Rightarrow> booking \<Rightarrow> json" where
  \<comment> \<open>the data slot a step addresses\<close>
  "read_slot step b =
     (if step = 0 then search_data b
      else if step = 1 then selection_data b
      else if step = 2 then travelers_data b
      else if step = 3 then addons_data b
      else review_data b)"

section \<open>Worked requests\<close>

definition empty_store :: db where
  "empty_store =
     \<lparr>bookings = Map.empty, payments = [], next_booking_id = 1, next_payment_id = 1\<rparr>"

definition sample_booking :: "int option \<Rightarrow> string \<Rightarrow> json \<Rightarrow> json \<Rightarrow> booking" where
  "sample_booking w s sel ads =
     (new_booking w)\<lparr>status := s, selection_data := sel, addons_data := ads\<rparr>"

definition store_of :: "booking \<Rightarrow> db" where
  \<comment> \<open>a store holding one booking, under the key 1\<close>
  "store_of b =
     \<lparr>bookings = [1 \<mapsto> b], payments = [], next_booking_id = 2, next_payment_id = 1\<rparr>"

definition request :: "int option \<Rightarrow> json \<Rightarrow> payload" where
  "request bid v = \<lparr>booking_id = bid, data = v, payment_intent_id = JNull\<rparr>"

definition pay_request :: "int option \<Rightarrow> string \<Rightarrow> payload" where
  "pay_request bid k =
     \<lparr>booking_id = bid, data = JNull, payment_intent_id = JStr (ustr k)\<rparr>"

definition succeeded_intent :: "int \<Rightarrow> stripe_intent" where
  "succeeded_intent a =
     \<lparr>intent_id = ''pi_1'', intent_status = ''succeeded'', intent_amount = a,
      client_secret = ''pi_1_secret''\<rparr>"

definition answering :: "stripe_intent \<Rightarrow> stripe_api" where
  \<comment> \<open>a processor that answers every call with the same intent\<close>
  "answering it =
     \<lparr>create_intent = (\<lambda>a i. Inr it), retrieve_intent = (\<lambda>k. Inr it),
      confirm_intent = (\<lambda>k. Inr it)\<rparr>"

definition price_029 :: json where
  \<comment> \<open>the selection \<open>{"price": 0.29}\<close>\<close>
  "price_029 = JDict [(ustr ''price'', JFloat (Finite 5224175567749775 (- 54)))]"

definition price_500 :: json where
  "price_500 = JDict [(ustr ''price'', JInt 500)]"

definition meal_and_insurance :: json where
  \<comment> \<open>the add-ons \<open>{"meal": 20, "insurance": 15.5}\<close>\<close>
  "meal_and_insurance =
     JDict [(ustr ''meal'', JInt 20),
            (ustr ''insurance'', JFloat (Finite 8725724278030336 (- 49)))]"

definition meal_string :: json where
  \<comment> \<open>the add-ons \<open>{"meal": "20"}\<close>\<close>
  "meal_string = JDict [(ustr ''meal'', JStr (ustr ''20''))]"

definition price_0125 :: json where
  \<comment> \<open>the selection \<open>{"price": 0.125}\<close>\<close>
  "price_0125 = JDict [(ustr ''price'', JFloat (Finite 4503599627370496 (- 55)))]"

definition huge_int :: int where
  \<comment> \<open>the least power of two beyond the range of a float\<close>
  "huge_int = 2 ^ 1024"

definition mixed_addons :: json where
  \<comment> \<open>add-ons of every kind: \<open>true\<close>, \<open>false\<close>, \<open>"20"\<close>, \<open>null\<close>, \<open>[1]\<close>, the integer
      \<open>2 ^ 1024\<close>, \<open>"abc"\<close>, and the string of U+00A0 and U+0661 (a no-break space and the
      Arabic-Indic digit one)\<close>
  "mixed_addons =
     JDict [(ustr ''a'', JBool True), (ustr ''b'', JBool False), (ustr ''c'', JStr (ustr ''20'')),
            (ustr ''d'', JNull), (ustr ''e'', JList [JInt 1]), (ustr ''f'', JInt huge_int),
            (ustr ''g'', JStr (ustr ''abc'')), (ustr ''h'', JStr [160, 1633])]"

section \<open>Facts about the total\<close>

lemmas fl_eval =
  fl_def fl_dyadic_def ilog2_def round_half_even_def bit_length_def bits_from.simps Let_def

lemmas str_eval =
  float_of_str_def strip_def is_space_def is_digit_def digit_val_def nat_of_digits_def
  lower_def parse_sign_def parse_exponent_def parse_decimal_def ord_def ustr_def
  decimal_and_space_to_ascii_def unicode_isspace_def unicode_decimal_def decimal_zeros_def

lemmas total_eval =
  converted_total_def spec_total_def price_value_def addon_values_def counted_def
  numeric_value_def List.map_filter_simps py_or_def truthy_def py_float_def float_of_int_def
  zero_float_def py_round2_def fadd_def sample_booking_def new_booking_def

lemma fadd_zero_left: "fadd zero_float x = x"
  by (cases x) (simp_all add: fadd_def zero_float_def)

lemma add_values_fold: "add_values t vs = foldl fadd t (List.map_filter counted vs)"
  by (induction vs arbitrary: t) (simp_all add: List.map_filter_simps counted_def split: sum.splits)

lemma price_term_dict:
  "price_term (JDict kvs) = py_float (py_or (price_value (JDict kvs)) (JInt 0))"
  by (simp add: price_term_def py_get_def price_value_def split: option.splits)

lemma py_float_zero: "py_float (JInt 0) = Inr zero_float"
  by (simp add: py_float_def float_of_int_def fl_def zero_float_def)

lemma counted_zero: "counted (JInt 0) = Some zero_float"
  by (simp add: counted_def py_or_def truthy_def py_float_def float_of_int_def fl_def zero_float_def)

lemma first_term:
  "(case price_term (py_or sel (JDict [])) of Inr x \<Rightarrow> fadd zero_float x | Inl ex \<Rightarrow> zero_float)
     = foldl fadd zero_float (List.map_filter counted [price_value sel])"
proof (cases sel)
  case (JDict kvs)
  show ?thesis
  proof (cases "kvs = []")
    case True
    with JDict show ?thesis
      by (simp add: py_or_def truthy_def price_term_dict price_value_def List.map_filter_simps
          counted_zero fadd_zero_left py_float_zero)
  next
    case False
    with JDict show ?thesis
      by (simp add: py_or_def truthy_def price_term_dict List.map_filter_simps counted_def
          fadd_zero_left split: sum.splits)
  qed
qed (simp_all add: py_or_def truthy_def price_term_def py_get_def price_value_def
      List.map_filter_simps counted_zero fadd_zero_left py_float_zero
      split: pyfloat.splits)

lemma isinstance_or: "isinstance_dict (py_or a (JDict [])) \<Longrightarrow>
   py_values (py_or a (JDict [])) = Inr (addon_values a)"
  by (cases a) (simp_all add: py_or_def truthy_def isinstance_dict_def py_values_def addon_values_def
      split: if_splits)

lemma not_isinstance_or: "\<not> isinstance_dict (py_or a (JDict [])) \<Longrightarrow> addon_values a = []"
  by (cases a) (simp_all add: py_or_def truthy_def isinstance_dict_def addon_values_def
      split: if_splits)

lemma recompute_total_eq:
  "recompute_total b = Inr (b\<lparr>total_amount := converted_total b\<rparr>)"
proof (cases "isinstance_dict (py_or (addons_data b) (JDict []))")
  case True
  then show ?thesis
    unfolding recompute_total_def converted_total_def Let_def first_term
    by (simp add: isinstance_or add_values_fold List.map_filter_simps foldl_append
        split: option.splits)
next
  case False
  then show ?thesis
    unfolding recompute_total_def converted_total_def Let_def first_term
    by (simp add: not_isinstance_or)
qed

section \<open>Results of the operations, case by case\<close>

lemma goc_existing:
  "bid = Some i \<Longrightarrow> i \<noteq> 0 \<Longrightarrow> get_or_create_booking u bid d =
     (case bookings d i of None \<Rightarrow> Inl NotFound | Some b \<Rightarrow> Inr (i, b, d))"
  by (simp add: get_or_create_booking_def get_or_404_def split: option.splits)

lemma goc_create:
  "bid = None \<or> bid = Some 0 \<Longrightarrow> get_or_create_booking u bid d =
     Inr (next_booking_id d, new_booking (owner_of u),
          (commit (next_booking_id d) (new_booking (owner_of u)) d)
            \<lparr>next_booking_id := next_booking_id d + 1\<rparr>)"
  by (auto simp add: get_or_create_booking_def owner_of_def Let_def)

lemma attach_anonymous: "attach_to_current_user_if_needed Anonymous i b d = (True, b, d)"
  by (simp add: attach_to_current_user_if_needed_def)

lemma attach_unbound:
  "user_id b = None \<Longrightarrow> attach_to_current_user_if_needed (LoggedIn uid) i b d =
     (True, b\<lparr>user_id := Some uid\<rparr>, commit i (b\<lparr>user_id := Some uid\<rparr>) d)"
  by (simp add: attach_to_current_user_if_needed_def Let_def)

lemma attach_bound:
  "user_id b = Some a \<Longrightarrow> attach_to_current_user_if_needed (LoggedIn uid) i b d = (a = uid, b, d)"
  by (simp add: attach_to_current_user_if_needed_def Let_def)

lemma attach_cases:
  assumes "attach_to_current_user_if_needed u i b d = (ok, b1, d1)"
  shows "(ok \<and> b1 = b \<and> d1 = d \<and> (u = Anonymous \<or> user_id b = owner_of u)) \<or>
         (ok \<and> user_id b = None \<and> u \<noteq> Anonymous \<and> b1 = b\<lparr>user_id := owner_of u\<rparr> \<and> d1 = commit i b1 d) \<or>
         (\<not> ok \<and> b1 = b \<and> d1 = d \<and> u \<noteq> Anonymous \<and> user_id b \<noteq> None \<and> user_id b \<noteq> owner_of u)"
proof (cases u)
  case Anonymous
  with assms show ?thesis by (simp add: attach_anonymous)
next
  case (LoggedIn uid)
  show ?thesis
  proof (cases "user_id b")
    case None
    with assms LoggedIn show ?thesis by (auto simp add: attach_unbound owner_of_def)
  next
    case (Some a)
    with assms LoggedIn show ?thesis by (auto simp add: attach_bound owner_of_def)
  qed
qed

lemma write_slot_some: "step \<le> 4 \<Longrightarrow> \<exists>b'. write_slot step v b = Some b'"
  by (simp add: write_slot_def)

lemma write_slot_none: "4 < step \<Longrightarrow> write_slot step v b = None"
  by (simp add: write_slot_def)

lemma write_slot_keeps:
  "write_slot step v b = Some b' \<Longrightarrow> user_id b' = user_id b \<and> status b' = status b \<and> step \<le> 4"
  by (auto simp add: write_slot_def split: if_splits)

lemma converted_total_upd [simp]:
  "converted_total (b\<lparr>total_amount := t\<rparr>) = converted_total b"
  "converted_total (b\<lparr>status := s\<rparr>) = converted_total b"
  "converted_total (b\<lparr>user_id := w\<rparr>) = converted_total b"
  by (simp_all add: converted_total_def)

lemma save_step_unfold:
  "save_step u step p d =
     (case get_or_create_booking u (booking_id p) d of
        Inl f \<Rightarrow> (Inl f, d)
      | Inr (i, b, d1) \<Rightarrow>
          (case attach_to_current_user_if_needed u i b d1 of
             (ok, b2, d2) \<Rightarrow>
               if \<not> ok then (Inl Forbidden, d2)
               else
                 (case write_slot step (data p) b2 of
                    None \<Rightarrow> (Inl InvalidStep, d2)
                  | Some b3 \<Rightarrow>
                      (Inr (Saved i (converted_total b3) (next_url_for_step step i)),
                       commit i (b3\<lparr>total_amount := converted_total b3\<rparr>) d2))))"
  by (simp add: save_step_def recompute_total_eq split: sum.splits prod.splits option.splits)

lemma commit_same: "bookings d i = Some b \<Longrightarrow> commit i b d = d"
  by (simp add: commit_def fun_upd_idem)

lemma commit_commit: "commit i b (commit i c d) = commit i b d"
  by (simp add: commit_def)

lemma commit_fields [simp]:
  "bookings (commit i b d) = (bookings d)(i \<mapsto> b)"
  "payments (commit i b d) = payments d"
  "next_booking_id (commit i b d) = next_booking_id d"
  "next_payment_id (commit i b d) = next_payment_id d"
  by (simp_all add: commit_def)

lemma attach_ok:
  assumes "bookings d i = Some b" "user_id b = None \<or> user_id b = Some uid"
  shows "attach_to_current_user_if_needed (LoggedIn uid) i b d =
           (True, b\<lparr>user_id := Some uid\<rparr>, commit i (b\<lparr>user_id := Some uid\<rparr>) d)"
proof (cases "user_id b")
  case None
  then show ?thesis by (simp add: attach_unbound)
next
  case (Some a)
  with assms have "b\<lparr>user_id := Some uid\<rparr> = b" by simp
  with Some assms show ?thesis by (simp add: attach_bound commit_same)
qed

lemma attach_forbidden:
  assumes "user_id b = Some a" "a \<noteq> uid"
  shows "attach_to_current_user_if_needed (LoggedIn uid) i b d = (False, b, d)"
  using assms by (simp add: attach_bound)

lemma get_or_404_some:
  "bookings d i = Some b \<Longrightarrow> get_or_404 (Some i) d = Inr (i, b)"
  by (simp add: get_or_404_def)

lemma get_or_404_cases:
  "get_or_404 bid d = Inl NotFound \<or> (\<exists>i b. bid = Some i \<and> bookings d i = Some b \<and> get_or_404 bid d = Inr (i, b))"
  by (simp add: get_or_404_def split: option.splits)

text \<open>results for an addressed booking whose owner check passes\<close>

lemma confirm_booking_ok:
  assumes "booking_id p = Some i" "bookings d i = Some b" "user_id b = None \<or> user_id b = Some uid"
  shows "confirm_booking (LoggedIn uid) p d =
     (Inr (ReadyForPayment i (converted_total b) (''/checkout.html?booking_id='' @ str_int i)),
      commit i (b\<lparr>user_id := Some uid, status := ''in_progress'',
                 total_amount := converted_total b\<rparr>) d)"
  using assms
  by (simp add: confirm_booking_def get_or_404_some attach_ok recompute_total_eq commit_commit)

lemma cancel_ok:
  assumes "booking_id p = Some i" "bookings d i = Some b" "user_id b = None \<or> user_id b = Some uid"
  shows "cancel (LoggedIn uid) p d =
     (Inr (Cancelled i), commit i (b\<lparr>user_id := Some uid, status := ''cancelled''\<rparr>) d)"
  using assms
  by (simp add: cancel_def get_or_404_some attach_ok commit_commit)

lemma create_payment_intent_ok:
  assumes "booking_id p = Some i" "bookings d i = Some b" "user_id b = None \<or> user_id b = Some uid"
  shows "create_payment_intent api (LoggedIn uid) p d =
     ((case minor_units (converted_total b) of
         Inl ex \<Rightarrow> Inl (ProviderError (str_exception ex))
       | Inr cents \<Rightarrow>
           (case create_intent api cents i of
              Inl msg \<Rightarrow> Inl (ProviderError msg)
            | Inr it \<Rightarrow> Inr (IntentCreated (client_secret it) (intent_id it)))),
      commit i (b\<lparr>user_id := Some uid\<rparr>) d)"
  using assms
  by (simp add: create_payment_intent_def get_or_404_some attach_ok recompute_total_eq
      split: sum.splits)

lemma pay_ok:
  assumes "booking_id p = Some i" "bookings d i = Some b" "user_id b = None \<or> user_id b = Some uid"
  shows "pay api (LoggedIn uid) p d =
     (case settle_intent api (payment_intent_id p) of
        Inl f \<Rightarrow> (Inl f, commit i (b\<lparr>user_id := Some uid\<rparr>) d)
      | Inr it \<Rightarrow>
          if intent_status it \<noteq> ''succeeded''
          then (Inl PaymentFailed, commit i (b\<lparr>user_id := Some uid\<rparr>) d)
          else
            (case minor_units (converted_total b) of
               Inl ex \<Rightarrow> (Inl (ServerError ex), commit i (b\<lparr>user_id := Some uid\<rparr>) d)
             | Inr cents \<Rightarrow>
                 if intent_amount it \<noteq> cents
                 then (Inl AmountMismatch, commit i (b\<lparr>user_id := Some uid\<rparr>) d)
                 else
                   (Inr (PaymentSuccess (next_payment_id d) (intent_id it) i
                           (''/dashboard.html?booking_id='' @ str_int i)),
                    (commit i (b\<lparr>user_id := Some uid, total_amount := converted_total b,
                                 status := ''confirmed''\<rparr>) d)
                      \<lparr>payments := payments d @
                         [(next_payment_id d,
                           \<lparr>payment_booking_id = i, amount = converted_total b,
                            payment_status = ''success'', provider = ''stripe'',
                            txn_ref = intent_id it\<rparr>)],
                       next_payment_id := next_payment_id d + 1\<rparr>)))"
  using assms
  by (simp add: pay_def get_or_404_some attach_ok recompute_total_eq commit_commit Let_def
      split: sum.splits)

text \<open>results when the owner check fails, the caller is anonymous or the booking is unknown\<close>

lemma handlers_forbidden:
  assumes "booking_id p = Some i" "bookings d i = Some b" "user_id b = Some a" "a \<noteq> uid"
  shows "confirm_booking (LoggedIn uid) p d = (Inl Forbidden, d)"
    and "create_payment_intent api (LoggedIn uid) p d = (Inl Forbidden, d)"
    and "pay api (LoggedIn uid) p d = (Inl Forbidden, d)"
    and "cancel (LoggedIn uid) p d = (Inl Forbidden, d)"
  using assms
  by (simp_all add: confirm_booking_def create_payment_intent_def pay_def cancel_def
      get_or_404_some attach_forbidden)

lemma handlers_not_found:
  assumes "get_or_404 (booking_id p) d = Inl NotFound"
  shows "confirm_booking (LoggedIn uid) p d = (Inl NotFound, d)"
    and "create_payment_intent api (LoggedIn uid) p d = (Inl NotFound, d)"
    and "pay api (LoggedIn uid) p d = (Inl NotFound, d)"
    and "cancel (LoggedIn uid) p d = (Inl NotFound, d)"
  using assms
  by (simp_all add: confirm_booking_def create_payment_intent_def pay_def cancel_def)

lemma handlers_anonymous:
  shows "confirm_booking Anonymous p d = (Inl Unauthorized, d)"
    and "create_payment_intent api Anonymous p d = (Inl Unauthorized, d)"
    and "pay api Anonymous p d = (Inl Unauthorized, d)"
    and "cancel Anonymous p d = (Inl Unauthorized, d)"
  by (simp_all add: confirm_booking_def create_payment_intent_def pay_def cancel_def)

lemma goc_cases:
  assumes "get_or_create_booking u bid d = r"
  shows "(r = Inl NotFound \<and> (\<exists>i. bid = Some i \<and> i \<noteq> 0 \<and> bookings d i = None)) \<or>
         (\<exists>i b. bid = Some i \<and> i \<noteq> 0 \<and> bookings d i = Some b \<and> r = Inr (i, b, d)) \<or>
         ((bid = None \<or> bid = Some 0) \<and>
          r = Inr (next_booking_id d, new_booking (owner_of u),
                   (commit (next_booking_id d) (new_booking (owner_of u)) d)
                     \<lparr>next_booking_id := next_booking_id d + 1\<rparr>))"
proof (cases "bid = None \<or> bid = Some 0")
  case True
  with assms show ?thesis using goc_create[OF True, of u d] by simp
next
  case False
  then obtain i where i: "bid = Some i" "i \<noteq> 0" by (cases bid) auto
  with assms show ?thesis using goc_existing[OF i, of u d] by (cases "bookings d i") auto
qed

lemma new_booking_fields [simp]:
  "user_id (new_booking w) = w" "status (new_booking w) = ''draft''"
  by (simp_all add: new_booking_def)

lemma save_step_create:
  assumes "booking_id p = None \<or> booking_id p = Some 0"
  shows "save_step u step p d =
     (case write_slot step (data p) (new_booking (owner_of u)) of
        None \<Rightarrow>
          (Inl InvalidStep,
           (commit (next_booking_id d) (new_booking (owner_of u)) d)
             \<lparr>next_booking_id := next_booking_id d + 1\<rparr>)
      | Some b3 \<Rightarrow>
          (Inr (Saved (next_booking_id d) (converted_total b3)
                  (next_url_for_step step (next_booking_id d))),
           (commit (next_booking_id d) (b3\<lparr>total_amount := converted_total b3\<rparr>) d)
             \<lparr>next_booking_id := next_booking_id d + 1\<rparr>))"
proof (cases u)
  case Anonymous
  then show ?thesis
    by (simp add: save_step_unfold goc_create[OF assms] attach_anonymous commit_def
        split: option.splits)
next
  case (LoggedIn uid)
  then show ?thesis
    by (simp add: save_step_unfold goc_create[OF assms] attach_bound owner_of_def commit_def
        split: option.splits)
qed

lemma save_step_anonymous_existing:
  assumes "booking_id p = Some i" "i \<noteq> 0" "bookings d i = Some b"
  shows "save_step Anonymous step p d =
     (case write_slot step (data p) b of
        None \<Rightarrow> (Inl InvalidStep, d)
      | Some b3 \<Rightarrow>
          (Inr (Saved i (converted_total b3) (next_url_for_step step i)),
           commit i (b3\<lparr>total_amount := converted_total b3\<rparr>) d))"
  using assms by (simp add: save_step_unfold goc_existing attach_anonymous)

lemma save_step_owner_existing:
  assumes "booking_id p = Some i" "i \<noteq> 0" "bookings d i = Some b"
    "user_id b = None \<or> user_id b = Some uid"
  shows "save_step (LoggedIn uid) step p d =
     (case write_slot step (data p) (b\<lparr>user_id := Some uid\<rparr>) of
        None \<Rightarrow> (Inl InvalidStep, commit i (b\<lparr>user_id := Some uid\<rparr>) d)
      | Some b3 \<Rightarrow>
          (Inr (Saved i (converted_total b3) (next_url_for_step step i)),
           commit i (b3\<lparr>total_amount := converted_total b3\<rparr>) d))"
  using assms
  by (simp add: save_step_unfold goc_existing attach_ok commit_commit split: option.splits)

lemma save_step_forbidden:
  assumes "booking_id p = Some i" "i \<noteq> 0" "bookings d i = Some b" "user_id b = Some a" "a \<noteq> uid"
  shows "save_step (LoggedIn uid) step p d = (Inl Forbidden, d)"
  using assms by (simp add: save_step_unfold goc_existing attach_forbidden)

lemma save_step_not_found:
  assumes "booking_id p = Some i" "i \<noteq> 0" "bookings d i = None"
  shows "save_step u step p d = (Inl NotFound, d)"
  using assms by (simp add: save_step_unfold goc_existing)

lemma next_url_in_range:
  assumes "step \<le> 4"
  shows "next_url_for_step step i =
     Some (''/'' @ [''booking1.html'', ''booking2.html'', ''booking3.html'', ''booking4.html'',
                    ''checkout.html''] ! step @ ''?booking_id='' @ str_int i)"
proof -
  from assms have "step = 0 \<or> step = 1 \<or> step = 2 \<or> step = 3 \<or> step = 4" by arith
  then show ?thesis
    by (elim disjE) (simp_all add: next_url_for_step_def STEP_TO_PAGE_def)
qed

lemma save_step_success:
  assumes "save_step u step p d = (Inr r, d')"
  shows "\<exists>i b. r = Saved i (total_amount b) (next_url_for_step step i) \<and>
           bookings d' i = Some b \<and> total_amount b = converted_total b \<and> step \<le> 4 \<and>
           (booking_id p = Some i \<and> i \<noteq> 0 \<and> bookings d i \<noteq> None \<or>
            (booking_id p = None \<or> booking_id p = Some 0) \<and> i = next_booking_id d)"
proof -
  consider (nf) i where "booking_id p = Some i" "i \<noteq> 0" "bookings d i = None"
    | (ex) i b where "booking_id p = Some i" "i \<noteq> 0" "bookings d i = Some b"
    | (cr) "booking_id p = None \<or> booking_id p = Some 0"
    using goc_cases[OF refl, of u "booking_id p" d] by blast
  then show ?thesis
  proof cases
    case nf
    with assms show ?thesis by (simp add: save_step_not_found)
  next
    case cr
    with assms show ?thesis
      by (auto simp add: save_step_create split: option.splits dest: write_slot_keeps)
  next
    case ex
    show ?thesis
    proof (cases u)
      case Anonymous
      with assms ex show ?thesis
        by (auto simp add: save_step_anonymous_existing split: option.splits dest: write_slot_keeps)
    next
      case (LoggedIn uid)
      show ?thesis
      proof (cases "user_id b = None \<or> user_id b = Some uid")
        case True
        with assms ex LoggedIn show ?thesis
          by (auto simp add: save_step_owner_existing split: option.splits dest: write_slot_keeps)
      next
        case False
        then obtain a where "user_id b = Some a" "a \<noteq> uid" by (cases "user_id b") auto
        with assms ex LoggedIn show ?thesis by (simp add: save_step_forbidden)
      qed
    qed
  qed
qed

lemma save_step_failure:
  assumes "save_step u step p d = (Inl f, d')"
  shows "f = NotFound \<or> f = Forbidden \<or> f = InvalidStep"
  using assms unfolding save_step_unfold
  by (auto split: sum.splits prod.splits option.splits if_splits
      dest: goc_cases)

lemma owner_ok_cases:
  obtains (ok) "user_id b = None \<or> user_id b = Some uid"
  | (other) a where "user_id b = Some a" "a \<noteq> uid"
  by (cases "user_id b") auto

lemma confirm_booking_effect:
  assumes "bookings d j = Some b" "confirm_booking u p d = (res, d')"
  shows "\<exists>b'. bookings d' j = Some b' \<and>
           status b' = (if (\<exists>r. res = Inr r) \<and> booking_id p = Some j then ''in_progress''
                        else status b) \<and>
           (user_id b \<noteq> None \<longrightarrow> user_id b' = user_id b) \<and> payments d' = payments d"
proof (cases u)
  case Anonymous
  with assms show ?thesis by (auto simp add: handlers_anonymous)
next
  case (LoggedIn uid)
  from get_or_404_cases[of "booking_id p" d] show ?thesis
  proof
    assume "get_or_404 (booking_id p) d = Inl NotFound"
    with assms LoggedIn show ?thesis by (auto simp add: handlers_not_found)
  next
    assume "\<exists>i c. booking_id p = Some i \<and> bookings d i = Some c \<and>
              get_or_404 (booking_id p) d = Inr (i, c)"
    then obtain i c where ic: "booking_id p = Some i" "bookings d i = Some c" by blast
    show ?thesis
    proof (cases c uid rule: owner_ok_cases)
      case ok
      from assms LoggedIn show ?thesis
        using ic ok by (auto simp add: confirm_booking_ok[OF ic ok])
    next
      case (other a)
      from assms LoggedIn show ?thesis
        by (auto simp add: handlers_forbidden(1)[OF ic other])
    qed
  qed
qed

lemma cancel_effect:
  assumes "bookings d j = Some b" "cancel u p d = (res, d')"
  shows "\<exists>b'. bookings d' j = Some b' \<and>
           status b' = (if (\<exists>r. res = Inr r) \<and> booking_id p = Some j then ''cancelled''
                        else status b) \<and>
           (user_id b \<noteq> None \<longrightarrow> user_id b' = user_id b) \<and> payments d' = payments d"
proof (cases u)
  case Anonymous
  with assms show ?thesis by (auto simp add: handlers_anonymous)
next
  case (LoggedIn uid)
  from get_or_404_cases[of "booking_id p" d] show ?thesis
  proof
    assume "get_or_404 (booking_id p) d = Inl NotFound"
    with assms LoggedIn show ?thesis by (auto simp add: handlers_not_found)
  next
    assume "\<exists>i c. booking_id p = Some i \<and> bookings d i = Some c \<and>
              get_or_404 (booking_id p) d = Inr (i, c)"
    then obtain i c where ic: "booking_id p = Some i" "bookings d i = Some c" by blast
    show ?thesis
    proof (cases c uid rule: owner_ok_cases)
      case ok
      from assms LoggedIn show ?thesis
        using ic ok by (auto simp add: cancel_ok[OF ic ok])
    next
      case (other a)
      from assms LoggedIn show ?thesis
        by (auto simp add: handlers_forbidden(4)[OF ic other])
    qed
  qed
qed

lemma create_payment_intent_effect:
  assumes "bookings d j = Some b" "create_payment_intent api u p d = (res, d')"
  shows "\<exists>b'. bookings d' j = Some b' \<and> status b' = status b \<and>
           (user_id b \<noteq> None \<longrightarrow> user_id b' = user_id b) \<and> payments d' = payments d"
proof (cases u)
  case Anonymous
  with assms show ?thesis by (auto simp add: handlers_anonymous)
next
  case (LoggedIn uid)
  from get_or_404_cases[of "booking_id p" d] show ?thesis
  proof
    assume "get_or_404 (booking_id p) d = Inl NotFound"
    with assms LoggedIn show ?thesis by (auto simp add: handlers_not_found)
  next
    assume "\<exists>i c. booking_id p = Some i \<and> bookings d i = Some c \<and>
              get_or_404 (booking_id p) d = Inr (i, c)"
    then obtain i c where ic: "booking_id p = Some i" "bookings d i = Some c" by blast
    show ?thesis
    proof (cases c uid rule: owner_ok_cases)
      case ok
      from assms LoggedIn show ?thesis
        using ic ok by (auto simp add: create_payment_intent_ok[OF ic ok])
    next
      case (other a)
      from assms LoggedIn show ?thesis
        by (auto simp add: handlers_forbidden(2)[OF ic other])
    qed
  qed
qed

lemma pay_effect:
  assumes "bookings d j = Some b" "pay api u p d = (res, d')"
  shows "\<exists>b'. bookings d' j = Some b' \<and>
           status b' = (if (\<exists>r. res = Inr r) \<and> booking_id p = Some j then ''confirmed''
                        else status b) \<and>
           (user_id b \<noteq> None \<longrightarrow> user_id b' = user_id b) \<and>
           ((\<forall>r. res \<noteq> Inr r) \<longrightarrow> payments d' = payments d)"
proof (cases u)
  case Anonymous
  with assms show ?thesis by (auto simp add: handlers_anonymous)
next
  case (LoggedIn uid)
  from get_or_404_cases[of "booking_id p" d] show ?thesis
  proof
    assume "get_or_404 (booking_id p) d = Inl NotFound"
    with assms LoggedIn show ?thesis by (auto simp add: handlers_not_found)
  next
    assume "\<exists>i c. booking_id p = Some i \<and> bookings d i = Some c \<and>
              get_or_404 (booking_id p) d = Inr (i, c)"
    then obtain i c where ic: "booking_id p = Some i" "bookings d i = Some c" by blast
    show ?thesis
    proof (cases c uid rule: owner_ok_cases)
      case ok
      from assms LoggedIn show ?thesis
        using ic ok
        by (auto simp add: pay_ok[OF ic ok] split: sum.splits if_splits)
    next
      case (other a)
      from assms LoggedIn show ?thesis
        by (auto simp add: handlers_forbidden(3)[OF ic other])
    qed
  qed
qed

lemma write_slot_SomeE:
  assumes "write_slot step v b = Some b'"
  obtains "step \<le> 4" "user_id b' = user_id b" "status b' = status b"
  using assms write_slot_keeps by blast

lemma save_step_effect:
  assumes "fresh_ids d" "bookings d j = Some b" "save_step u step p d = (res, d')"
  shows "\<exists>b'. bookings d' j = Some b' \<and> status b' = status b \<and>
           (user_id b \<noteq> None \<longrightarrow> user_id b' = user_id b) \<and> payments d' = payments d"
proof -
  from assms(1,2) have fresh: "j \<noteq> next_booking_id d"
    by (auto simp add: fresh_ids_def)
  consider (nf) i where "booking_id p = Some i" "i \<noteq> 0" "bookings d i = None"
    | (ex) i c where "booking_id p = Some i" "i \<noteq> 0" "bookings d i = Some c"
    | (cr) "booking_id p = None \<or> booking_id p = Some 0"
    using goc_cases[OF refl, of u "booking_id p" d] by blast
  then show ?thesis
  proof cases
    case nf
    with assms show ?thesis by (auto simp add: save_step_not_found)
  next
    case cr
    with assms fresh show ?thesis
      by (auto simp add: save_step_create split: option.splits elim!: write_slot_SomeE)
  next
    case ex
    show ?thesis
    proof (cases u)
      case Anonymous
      with assms ex show ?thesis
        by (auto simp add: save_step_anonymous_existing split: option.splits
            elim!: write_slot_SomeE)
    next
      case (LoggedIn uid)
      show ?thesis
      proof (cases c uid rule: owner_ok_cases)
        case ok
        with assms ex LoggedIn show ?thesis
          by (auto simp add: save_step_owner_existing split: option.splits
              elim!: write_slot_SomeE)
      next
        case (other a)
        with assms ex LoggedIn show ?thesis by (auto simp add: save_step_forbidden)
      qed
    qed
  qed
qed

section \<open>Worked totals and the claims\<close>

lemma fl_100: "fl 100 1 = Finite 7036874417766400 (- 46)"
  by (simp add: fl_eval)

lemma total_price_029: "converted_total (sample_booking w s price_029 JNull) = Finite 5224175567749775 (- 54)"
  by (simp add: total_eval price_029_def fl_eval)

lemma minor_units_029: "minor_units (Finite 5224175567749775 (- 54)) = Inr 28"
  by (simp add: minor_units_def fl_100 fmul_def py_int_def fl_eval)

lemma round_029: "py_round (fmul (Finite 5224175567749775 (- 54)) (fl 100 1)) = Inr 29"
  by (simp add: fl_100 fmul_def py_round_def fl_eval)

lemma total_price_500: "converted_total (sample_booking w s price_500 JNull) = Finite 8796093022208000 (- 44)"
  by (simp add: total_eval price_500_def fl_eval)

lemma total_example: "converted_total (sample_booking w s price_500 meal_and_insurance) = Finite 4710307813392384 (- 43)"
  by (simp add: total_eval price_500_def meal_and_insurance_def fl_eval)

lemma minor_units_example: "minor_units (Finite 4710307813392384 (- 43)) = Inr 53550"
  by (simp add: minor_units_def fl_100 fmul_def py_int_def fl_eval)

lemma total_meal_string:
  "converted_total (sample_booking w s JNull meal_string) = Finite 5629499534213120 (- 48)"
  by (simp add: total_eval meal_string_def str_eval fl_eval)

lemma spec_total_meal_string:
  "spec_total (sample_booking w s JNull meal_string) = Finite 0 (- 1074)"
  by (simp add: total_eval meal_string_def fl_eval)

lemma total_empty: "converted_total (sample_booking w s JNull JNull) = Finite 0 (- 1074)"
  by (simp add: total_eval fl_eval)

lemmas store_eval = store_of_def empty_store_def request_def pay_request_def

lemma sample_fields [simp]:
  "user_id (sample_booking w s sel ads) = w"
  "status (sample_booking w s sel ads) = s"
  by (simp_all add: sample_booking_def new_booking_def)

lemma new_booking_sample: "new_booking w = sample_booking w ''draft'' JNull JNull"
  by (simp add: sample_booking_def new_booking_def)

lemma write_slot_sample_1:
  "write_slot (Suc 0) v (sample_booking w s sel ads) = Some (sample_booking w s v ads)"
  by (simp add: write_slot_def sample_booking_def new_booking_def)

lemma write_slot_sample_3:
  "write_slot 3 v (sample_booking w s sel ads) = Some (sample_booking w s sel v)"
  by (simp add: write_slot_def sample_booking_def new_booking_def)

lemma save_price_500:
  "save_step Anonymous 1 (request None price_500) empty_store =
     (Inr (Saved 1 (Finite 8796093022208000 (- 44)) (Some ''/booking2.html?booking_id=1'')),
      (commit 1 ((sample_booking None ''draft'' price_500 JNull)
                   \<lparr>total_amount := Finite 8796093022208000 (- 44)\<rparr>) empty_store)
        \<lparr>next_booking_id := 2\<rparr>)"
  by (simp add: save_step_create request_def owner_of_def new_booking_sample write_slot_sample_1
      total_price_500 empty_store_def)
    (simp add: next_url_for_step_def STEP_TO_PAGE_def str_int_def str_nat.simps)

lemma save_meal_string:
  "save_step Anonymous 3 (request None meal_string) empty_store =
     (Inr (Saved 1 (Finite 5629499534213120 (- 48)) (Some ''/booking4.html?booking_id=1'')),
      (commit 1 ((sample_booking None ''draft'' JNull meal_string)
                   \<lparr>total_amount := Finite 5629499534213120 (- 48)\<rparr>) empty_store)
        \<lparr>next_booking_id := 2\<rparr>)"
  by (simp add: save_step_create request_def owner_of_def new_booking_sample write_slot_sample_3
      total_meal_string empty_store_def)
    (simp add: next_url_for_step_def STEP_TO_PAGE_def str_int_def str_nat.simps)

lemma spec_total_upd [simp]: "spec_total (b\<lparr>total_amount := t\<rparr>) = spec_total b"
  by (simp add: spec_total_def)

lemma store_of_fields [simp]:
  "bookings (store_of b) = [1 \<mapsto> b]" "payments (store_of b) = []"
  "next_booking_id (store_of b) = 2" "next_payment_id (store_of b) = 1"
  by (simp_all add: store_of_def)

lemma fresh_store_of: "fresh_ids (store_of b)"
  by (simp add: fresh_ids_def)

lemma request_fields [simp]:
  "booking_id (request bid v) = bid" "data (request bid v) = v"
  "booking_id (pay_request bid k) = bid"
  "payment_intent_id (pay_request bid k) = JStr (ustr k)"
  by (simp_all add: request_def pay_request_def)

lemma settle_answering:
  "settle_intent (answering (succeeded_intent a)) k = Inr (succeeded_intent a)"
  by (simp add: settle_intent_def answering_def succeeded_intent_def)

lemma succeeded_fields [simp]:
  "intent_status (succeeded_intent a) = ''succeeded''" "intent_amount (succeeded_intent a) = a"
  "intent_id (succeeded_intent a) = ''pi_1''"
  by (simp_all add: succeeded_intent_def)

lemma float_true: "float_of_int 1 = Inr (Finite 4503599627370496 (- 52))"
  by (simp add: float_of_int_def fl_eval)

lemma float_of_int_zero: "float_of_int 0 = Inr zero_float"
  by (simp add: float_of_int_def fl_def zero_float_def)

lemma counted_kinds:
  "counted JNull = Some zero_float"
  "counted (JBool False) = Some zero_float"
  "counted (JBool True) = Some (Finite 4503599627370496 (- 52))"
  "counted (JInt n) = (case float_of_int n of Inr x \<Rightarrow> Some x | Inl ex \<Rightarrow> None)"
  "counted (JFloat x) = Some (if truthy (JFloat x) then x else zero_float)"
  "counted (JStr s) =
     (if s = [] then Some zero_float
      else case float_of_str s of Inr x \<Rightarrow> Some x | Inl ex \<Rightarrow> None)"
  "counted (JList xs) = (if xs = [] then Some zero_float else None)"
  "counted (JDict kvs) = (if kvs = [] then Some zero_float else None)"
  by (simp_all add: counted_def py_or_def truthy_def py_float_def float_true float_of_int_zero)

lemma price_value_kinds:
  "price_value (JDict kvs) =
     (case map_of kvs (ustr ''price'') of Some v \<Rightarrow> v | None \<Rightarrow> JInt 0)"
  "price_value JNull = JInt 0" "price_value (JBool t) = JInt 0" "price_value (JInt n) = JInt 0"
  "price_value (JFloat x) = JInt 0" "price_value (JStr s) = JInt 0"
  "price_value (JList xs) = JInt 0"
  by (simp_all add: price_value_def)

lemma bits_from_pow2: "bits_from k (2 ^ m) = k + m + 1"
proof (induction m arbitrary: k)
  case 0
  show ?case by (simp add: bits_from.simps)
next
  case (Suc m)
  have "bits_from k (2 ^ Suc m) = bits_from (k + 1) (2 ^ Suc m div 2)"
    by (subst bits_from.simps) simp
  also have "\<dots> = k + Suc m + 1" by (simp add: Suc)
  finally show ?case .
qed

lemma bit_length_pow2: "bit_length (2 ^ m) = m + 1"
  by (simp add: bit_length_def bits_from_pow2)

lemmas bit_length_2_1024 = bit_length_pow2[of 1024, simplified]

lemma bit_length_one: "bit_length (Suc 0) = 1"
  by (simp add: bit_length_def bits_from.simps)

lemma float_too_large: "float_of_int huge_int = Inl OverflowError"
  by (simp add: huge_int_def float_of_int_def fl_def ilog2_def bit_length_2_1024 bit_length_one
      round_half_even_def Let_def)

lemma float_str_20: "float_of_str (ustr ''20'') = Inr (Finite 5629499534213120 (- 48))"
  by (simp add: str_eval fl_eval)

lemma float_str_abc: "float_of_str (ustr ''abc'') = Inl ValueError"
  by (simp add: str_eval fl_eval)

lemma float_str_unicode: "float_of_str [160, 1633] = Inr (Finite 4503599627370496 (- 52))"
  by (simp add: str_eval fl_eval)

lemma ustr_eq_Nil: "ustr s = [] \<longleftrightarrow> s = []"
  by (simp add: ustr_def)

lemma map_filter_mixed:
  "List.map_filter counted (addon_values mixed_addons) =
     [Finite 4503599627370496 (- 52), zero_float, Finite 5629499534213120 (- 48), zero_float,
      Finite 4503599627370496 (- 52)]"
  by (simp add: addon_values_def mixed_addons_def List.map_filter_simps counted_kinds
      float_too_large float_str_20 float_str_abc float_str_unicode ustr_eq_Nil)

lemma counted_price_0125:
  "counted (price_value price_0125) = Some (Finite 4503599627370496 (- 55))"
  by (simp add: price_value_kinds price_0125_def counted_kinds truthy_def)

lemma total_mixed:
  "converted_total (sample_booking w s price_0125 mixed_addons) = Finite 6226226484839711 (- 48)"
  by (simp add: converted_total_def sample_booking_def new_booking_def List.map_filter_simps
      counted_price_0125 map_filter_mixed)
    (simp add: zero_float_def fadd_def py_round2_def fl_eval)

lemma recompute_mixed_by_the_loop:
  "recompute_total (sample_booking w s price_0125 mixed_addons) =
     Inr ((sample_booking w s price_0125 mixed_addons)
            \<lparr>total_amount := Finite 6226226484839711 (- 48)\<rparr>)"
  by (simp add: recompute_total_eq total_mixed)

lemma save_mixed:
  "save_step Anonymous 3 (request (Some 1) mixed_addons)
     (store_of (sample_booking None ''draft'' price_0125 JNull)) =
   (Inr (Saved 1 (Finite 6226226484839711 (- 48)) (Some ''/booking4.html?booking_id=1'')),
    commit 1 ((sample_booking None ''draft'' price_0125 mixed_addons)
                \<lparr>total_amount := Finite 6226226484839711 (- 48)\<rparr>)
      (store_of (sample_booking None ''draft'' price_0125 JNull)))"
  by (subst save_step_anonymous_existing[where i = 1
        and b = "sample_booking None ''draft'' price_0125 JNull"])
    (simp_all add: write_slot_sample_3 total_mixed next_url_for_step_def STEP_TO_PAGE_def
      str_int_def str_nat.simps)

lemma not_dict_cases:
  "isinstance_dict v \<or> (price_value v = JInt 0 \<and> addon_values v = [])"
  by (cases v) (simp_all add: isinstance_dict_def price_value_def addon_values_def)


text \<open>
  C1 (as stated): after \<open>save_step\<close> the total is the rounded sum of the price and of the
  add-on values that are numbers, every other value counting as 0. The add-ons
  \<open>{"meal": "20"}\<close> saved into a new draft give the total 20.0, where the stated rule
  gives 0.0.
\<close>

theorem save_step_counts_numeric_string:
  "map_option total_amount
     (bookings (snd (save_step Anonymous 3 (request None meal_string)
                       empty_store)) 1)
     = Some (Finite 5629499534213120 (- 48)) \<and>
   map_option spec_total
     (bookings (snd (save_step Anonymous 3 (request None meal_string)
                       empty_store)) 1)
     = Some (Finite 0 (- 1074))"
  by (simp add: save_meal_string spec_total_meal_string)

text \<open>
  C1 (amended): the recomputation never raises, whatever the selection and add-ons
  slots hold, and sets the total to \<open>converted_total\<close>: \<open>round(t, 2)\<close> of the float sum
  \<open>t\<close>, taken in order, of the values that \<open>float(v or 0)\<close> converts, over the
  selection's price and then the values of the add-ons mapping. Null, false, zero and
  an empty string, list or object count as 0.0; true counts as 1.0; a number counts
  with its value, an integer beyond the range of a float being passed over; a
  non-empty string counts with the value \<open>float\<close> gives it and is passed over when
  \<open>float\<close> rejects it; a non-empty list or object is passed over. A selection that is
  not a mapping or has no price gives the price 0, and add-ons that are not a mapping
  give no values. A successful \<open>save_step\<close> returns and stores that total.
\<close>

theorem save_step_converted_total:
  assumes "save_step u step p d = (Inr r, d')"
  shows "recompute_total c = Inr (c\<lparr>total_amount := converted_total c\<rparr>) \<and>
         (\<exists>i b. r = Saved i (total_amount b) (next_url_for_step step i) \<and>
                bookings d' i = Some b \<and> total_amount b = converted_total b) \<and>
         counted JNull = Some zero_float \<and>
         counted (JBool False) = Some zero_float \<and>
         counted (JBool True) = Some (Finite 4503599627370496 (- 52)) \<and>
         counted (JInt n) = (case float_of_int n of Inr x \<Rightarrow> Some x | Inl ex \<Rightarrow> None) \<and>
         counted (JFloat x) = Some (if truthy (JFloat x) then x else zero_float) \<and>
         counted (JStr s) =
           (if s = [] then Some zero_float
            else case float_of_str s of Inr x \<Rightarrow> Some x | Inl ex \<Rightarrow> None) \<and>
         counted (JList xs) = (if xs = [] then Some zero_float else None) \<and>
         counted (JDict kvs) = (if kvs = [] then Some zero_float else None) \<and>
         price_value (JDict kvs) =
           (case map_of kvs (ustr ''price'') of Some v \<Rightarrow> v | None \<Rightarrow> JInt 0) \<and>
         addon_values (JDict kvs) = map snd kvs \<and>
         (isinstance_dict w \<or> (price_value w = JInt 0 \<and> addon_values w = []))"
proof -
  from save_step_success[OF assms]
  have "\<exists>i b. r = Saved i (total_amount b) (next_url_for_step step i) \<and>
               bookings d' i = Some b \<and> total_amount b = converted_total b"
    by blast
  moreover have "addon_values (JDict kvs) = map snd kvs" by (simp add: addon_values_def)
  ultimately show ?thesis
    using recompute_total_eq[of c] counted_kinds price_value_kinds(1)[of kvs]
      not_dict_cases[of w]
    by simp
qed

theorem save_step_converted_total_witness:
  "save_step Anonymous 3 (request (Some 1) mixed_addons)
     (store_of (sample_booking None ''draft'' price_0125 JNull)) =
   (Inr (Saved 1 (Finite 6226226484839711 (- 48)) (Some ''/booking4.html?booking_id=1'')),
    commit 1 ((sample_booking None ''draft'' price_0125 mixed_addons)
                \<lparr>total_amount := Finite 6226226484839711 (- 48)\<rparr>)
      (store_of (sample_booking None ''draft'' price_0125 JNull))) \<and>
   recompute_total (sample_booking None ''draft'' price_0125 mixed_addons) =
     Inr ((sample_booking None ''draft'' price_0125 mixed_addons)
            \<lparr>total_amount := Finite 6226226484839711 (- 48)\<rparr>) \<and>
   List.map_filter counted (addon_values mixed_addons) =
     [Finite 4503599627370496 (- 52), zero_float, Finite 5629499534213120 (- 48), zero_float,
      Finite 4503599627370496 (- 52)] \<and>
   float_of_int huge_int = Inl OverflowError \<and>
   float_of_str (ustr ''abc'') = Inl ValueError \<and>
   float_of_str [160, 1633] = Inr (Finite 4503599627370496 (- 52)) \<and>
   fadd (fadd (fadd (Finite 4503599627370496 (- 55)) (Finite 4503599627370496 (- 52)))
          (Finite 5629499534213120 (- 48))) (Finite 4503599627370496 (- 52))
     = Finite 6227633859723264 (- 48) \<and>
   py_round2 (Finite 6227633859723264 (- 48)) = Finite 6226226484839711 (- 48)"
proof -
  have sum: "fadd (fadd (fadd (Finite 4503599627370496 (- 55)) (Finite 4503599627370496 (- 52)))
          (Finite 5629499534213120 (- 48))) (Finite 4503599627370496 (- 52))
     = Finite 6227633859723264 (- 48)"
    by (simp add: fadd_def fl_eval)
  have rnd: "py_round2 (Finite 6227633859723264 (- 48)) = Finite 6226226484839711 (- 48)"
    by (simp add: py_round2_def fl_eval)
  from save_step_converted_total[OF save_mixed,
      where c = "sample_booking None ''draft'' price_0125 mixed_addons"]
  have "recompute_total (sample_booking None ''draft'' price_0125 mixed_addons) =
     Inr ((sample_booking None ''draft'' price_0125 mixed_addons)
            \<lparr>total_amount := Finite 6226226484839711 (- 48)\<rparr>)"
    by (simp add: total_mixed)
  with sum rnd show ?thesis
    by (simp add: save_mixed map_filter_mixed float_too_large float_str_abc float_str_unicode)
qed


lemma status_after_confirm:
  "map_option status
     (bookings (snd (confirm_booking (LoggedIn 7) (request (Some 1) JNull)
                       (store_of (sample_booking (Some 7) s JNull JNull)))) 1)
   = Some ''in_progress''"
  by (subst confirm_booking_ok[where i = 1 and b = "sample_booking (Some 7) s JNull JNull"])
    simp_all

text \<open>
  C2 (as stated): once a booking is confirmed or cancelled no operation moves its status
  back. Confirming a booking whose status is \<open>confirmed\<close> leaves it \<open>in_progress\<close>.
\<close>

theorem confirm_reopens_confirmed_booking:
  "map_option status
     (bookings (store_of (sample_booking (Some 7) ''confirmed'' JNull JNull)) 1)
     = Some ''confirmed'' \<and>
   map_option status
     (bookings (snd (confirm_booking (LoggedIn 7) (request (Some 1) JNull)
                       (store_of (sample_booking (Some 7) ''confirmed'' JNull JNull)))) 1)
     = Some ''in_progress''"
  by (simp add: status_after_confirm)

text \<open>
  C2 (amended): no operation looks at the status a booking has. \<open>save_step\<close> and
  \<open>create_payment_intent\<close> leave the status of every booking as it was; a successful
  \<open>confirm\<close> sets the status of the booking it names to \<open>in_progress\<close>, a successful
  \<open>confirm_payment\<close> to \<open>confirmed\<close> and a successful \<open>cancel\<close> to \<open>cancelled\<close>, whatever
  it was before; a failed operation, and an operation naming another booking, leave it
  as it was.
\<close>

theorem status_after_operation:
  assumes "bookings d j = Some b" "fresh_ids d"
  shows "map_option status (bookings (snd (save_step u step p d)) j) = Some (status b) \<and>
         map_option status (bookings (snd (create_payment_intent api u p d)) j)
           = Some (status b) \<and>
         map_option status (bookings (snd (confirm_booking u p d)) j)
           = Some (if \<not> isl (fst (confirm_booking u p d)) \<and> booking_id p = Some j
                   then ''in_progress'' else status b) \<and>
         map_option status (bookings (snd (pay api u p d)) j)
           = Some (if \<not> isl (fst (pay api u p d)) \<and> booking_id p = Some j
                   then ''confirmed'' else status b) \<and>
         map_option status (bookings (snd (cancel u p d)) j)
           = Some (if \<not> isl (fst (cancel u p d)) \<and> booking_id p = Some j
                   then ''cancelled'' else status b)"
proof (intro conjI)
  show "map_option status (bookings (snd (save_step u step p d)) j) = Some (status b)"
    using save_step_effect[OF assms(2,1) surjective_pairing, of u step p] by auto
  show "map_option status (bookings (snd (create_payment_intent api u p d)) j)
          = Some (status b)"
    using create_payment_intent_effect[OF assms(1) surjective_pairing, of api u p] by auto
  show "map_option status (bookings (snd (confirm_booking u p d)) j)
          = Some (if \<not> isl (fst (confirm_booking u p d)) \<and> booking_id p = Some j
                  then ''in_progress'' else status b)"
    using confirm_booking_effect[OF assms(1) surjective_pairing, of u p]
    by (cases "fst (confirm_booking u p d)") auto
  show "map_option status (bookings (snd (pay api u p d)) j)
          = Some (if \<not> isl (fst (pay api u p d)) \<and> booking_id p = Some j
                  then ''confirmed'' else status b)"
    using pay_effect[OF assms(1) surjective_pairing, of api u p]
    by (cases "fst (pay api u p d)") auto
  show "map_option status (bookings (snd (cancel u p d)) j)
          = Some (if \<not> isl (fst (cancel u p d)) \<and> booking_id p = Some j
                  then ''cancelled'' else status b)"
    using cancel_effect[OF assms(1) surjective_pairing, of u p]
    by (cases "fst (cancel u p d)") auto
qed

lemma cancel_sample:
  "fst (cancel (LoggedIn 7) (request (Some 1) JNull)
         (store_of (sample_booking (Some 7) ''confirmed'' JNull JNull))) = Inr (Cancelled 1)"
  by (subst cancel_ok[where i = 1 and b = "sample_booking (Some 7) ''confirmed'' JNull JNull"])
    simp_all

theorem status_after_operation_witness:
  "bookings (store_of (sample_booking (Some 7) ''confirmed'' JNull JNull)) 1
     = Some (sample_booking (Some 7) ''confirmed'' JNull JNull) \<and>
   map_option status
     (bookings (snd (save_step (LoggedIn 7) 0 (request (Some 1) JNull)
                       (store_of (sample_booking (Some 7) ''confirmed'' JNull JNull)))) 1)
     = Some ''confirmed'' \<and>
   map_option status
     (bookings (snd (cancel (LoggedIn 7) (request (Some 1) JNull)
                       (store_of (sample_booking (Some 7) ''confirmed'' JNull JNull)))) 1)
     = Some ''cancelled''"
  using status_after_operation[of "store_of (sample_booking (Some 7) ''confirmed'' JNull JNull)"
      1 "sample_booking (Some 7) ''confirmed'' JNull JNull" "LoggedIn 7" 0
      "request (Some 1) JNull"]
  by (simp add: fresh_store_of cancel_sample)

lemma pay_029:
  "pay (answering (succeeded_intent 29)) (LoggedIn 7) (pay_request (Some 1) ''pi_1'')
     (store_of (sample_booking (Some 7) ''in_progress'' price_029 JNull))
   = (Inl AmountMismatch, store_of (sample_booking (Some 7) ''in_progress'' price_029 JNull))"
  by (subst pay_ok[where i = 1 and b = "sample_booking (Some 7) ''in_progress'' price_029 JNull"])
    (simp_all add: settle_answering total_price_029 minor_units_029 commit_same)

text \<open>
  C3: \<open>confirm_payment\<close> reports an amount mismatch exactly when the charged amount
  differs from \<open>round(total * 100)\<close>. For the selection \<open>{"price": 0.29}\<close> the total is
  0.29 and \<open>round(0.29 * 100)\<close> is 29, yet the handler compares with
  \<open>int(0.29 * 100)\<close>, which is 28: a succeeded intent that charged 29 is refused.
\<close>

theorem pay_truncates_minor_units:
  "fst (pay (answering (succeeded_intent 29)) (LoggedIn 7) (pay_request (Some 1) ''pi_1'')
          (store_of (sample_booking (Some 7) ''in_progress'' price_029 JNull)))
     = Inl AmountMismatch \<and>
   converted_total (sample_booking (Some 7) ''in_progress'' price_029 JNull)
     = Finite 5224175567749775 (- 54) \<and>
   py_round (fmul (Finite 5224175567749775 (- 54)) (fl 100 1)) = Inr 29 \<and>
   minor_units (Finite 5224175567749775 (- 54)) = Inr 28"
  by (simp add: pay_029 total_price_029 round_029 minor_units_029)

lemma fresh_nonzero: "fresh_ids d \<Longrightarrow> bookings d i = Some b \<Longrightarrow> i \<noteq> 0"
  by (auto simp add: fresh_ids_def)

text \<open>
  C4: a booking bound to user \<open>a\<close> stays bound to \<open>a\<close> through every operation, by any
  caller and with any request; and each of the five operations, called on that booking
  by another authenticated user \<open>c\<close>, fails with Forbidden and leaves the store as it was.
\<close>

theorem ownership_is_permanent:
  assumes "bookings d i = Some b" "user_id b = Some a" "c \<noteq> a" "booking_id p = Some i"
    "fresh_ids d"
  shows "save_step (LoggedIn c) step p d = (Inl Forbidden, d) \<and>
         confirm_booking (LoggedIn c) p d = (Inl Forbidden, d) \<and>
         create_payment_intent api (LoggedIn c) p d = (Inl Forbidden, d) \<and>
         pay api (LoggedIn c) p d = (Inl Forbidden, d) \<and>
         cancel (LoggedIn c) p d = (Inl Forbidden, d) \<and>
         map_option user_id (bookings (snd (save_step u step q d)) i) = Some (Some a) \<and>
         map_option user_id (bookings (snd (confirm_booking u q d)) i) = Some (Some a) \<and>
         map_option user_id (bookings (snd (create_payment_intent api u q d)) i)
           = Some (Some a) \<and>
         map_option user_id (bookings (snd (pay api u q d)) i) = Some (Some a) \<and>
         map_option user_id (bookings (snd (cancel u q d)) i) = Some (Some a)"
proof -
  from assms have nz: "i \<noteq> 0" by (auto dest: fresh_nonzero)
  from assms(3) have ac: "a \<noteq> c" by simp
  note fb = handlers_forbidden[OF assms(4) assms(1) assms(2) ac]
  have 1: "save_step (LoggedIn c) step p d = (Inl Forbidden, d)"
    by (rule save_step_forbidden[OF assms(4) nz assms(1) assms(2) ac])
  have 2: "map_option user_id (bookings (snd (save_step u step q d)) i) = Some (Some a)"
    using save_step_effect[OF assms(5) assms(1) surjective_pairing, of u step q] assms(2)
    by auto
  have 3: "map_option user_id (bookings (snd (confirm_booking u q d)) i) = Some (Some a)"
    using confirm_booking_effect[OF assms(1) surjective_pairing, of u q] assms(2) by auto
  have 4: "map_option user_id (bookings (snd (create_payment_intent api u q d)) i)
             = Some (Some a)"
    using create_payment_intent_effect[OF assms(1) surjective_pairing, of api u q] assms(2)
    by auto
  have 5: "map_option user_id (bookings (snd (pay api u q d)) i) = Some (Some a)"
    using pay_effect[OF assms(1) surjective_pairing, of api u q] assms(2) by auto
  have 6: "map_option user_id (bookings (snd (cancel u q d)) i) = Some (Some a)"
    using cancel_effect[OF assms(1) surjective_pairing, of u q] assms(2) by auto
  from 1 fb 2 3 4 5 6 show ?thesis by simp
qed

theorem ownership_is_permanent_witness:
  "bookings (store_of (sample_booking (Some 7) ''draft'' price_500 JNull)) 1
     = Some (sample_booking (Some 7) ''draft'' price_500 JNull) \<and>
   user_id (sample_booking (Some 7) ''draft'' price_500 JNull) = Some 7 \<and>
   (8::int) \<noteq> 7 \<and>
   booking_id (request (Some 1) meal_and_insurance) = Some 1 \<and>
   save_step (LoggedIn 8) 3 (request (Some 1) meal_and_insurance)
       (store_of (sample_booking (Some 7) ''draft'' price_500 JNull))
     = (Inl Forbidden, store_of (sample_booking (Some 7) ''draft'' price_500 JNull)) \<and>
   cancel (LoggedIn 8) (request (Some 1) meal_and_insurance)
       (store_of (sample_booking (Some 7) ''draft'' price_500 JNull))
     = (Inl Forbidden, store_of (sample_booking (Some 7) ''draft'' price_500 JNull)) \<and>
   map_option user_id
     (bookings (snd (confirm_booking (LoggedIn 7) (request (Some 1) JNull)
                       (store_of (sample_booking (Some 7) ''draft'' price_500 JNull)))) 1)
     = Some (Some 7)"
  using ownership_is_permanent[of "store_of (sample_booking (Some 7) ''draft'' price_500 JNull)"
      1 "sample_booking (Some 7) ''draft'' price_500 JNull" 7 8
      "request (Some 1) meal_and_insurance" 3 _ "LoggedIn 7" "request (Some 1) JNull"]
  by (simp add: fresh_store_of)

lemma write_slot_sample_4:
  "write_slot 4 v (sample_booking w s sel ads) = Some ((sample_booking w s sel ads)\<lparr>review_data := v\<rparr>)"
  by (simp add: write_slot_def)

lemma converted_total_review [simp]:
  "converted_total (b\<lparr>review_data := v\<rparr>) = converted_total b"
  by (simp add: converted_total_def)

lemma save_review:
  "save_step Anonymous 4 (request None JNull) empty_store =
     (Inr (Saved 1 (Finite 0 (- 1074)) (Some ''/checkout.html?booking_id=1'')),
      (commit 1 ((sample_booking None ''draft'' JNull JNull)
                   \<lparr>review_data := JNull, total_amount := Finite 0 (- 1074)\<rparr>) empty_store)
        \<lparr>next_booking_id := 2\<rparr>)"
  by (simp add: save_step_create request_def owner_of_def new_booking_sample write_slot_sample_4
      total_empty empty_store_def)
    (simp add: next_url_for_step_def STEP_TO_PAGE_def str_int_def str_nat.simps)

text \<open>
  C5 (as stated): a successful \<open>save_step\<close> at step 4 yields no next-page hint. Saving
  step 4 into a new draft returns the hint \<open>/checkout.html?booking_id=1\<close>.
\<close>

theorem save_step_4_has_hint:
  "fst (save_step Anonymous 4 (request None JNull) empty_store)
     = Inr (Saved 1 (Finite 0 (- 1074)) (Some ''/checkout.html?booking_id=1''))"
  by (simp add: save_review)

text \<open>
  C5 (amended): for every step 0 to 4 a successful \<open>save_step\<close> returns the booking id
  (the one given, or the new draft's), the total it has just recomputed and stored, and
  a next-page hint from the fixed table: \<open>/booking1.html\<close> to \<open>/booking4.html\<close> for the
  steps 0 to 3 and \<open>/checkout.html\<close> for step 4, each followed by
  \<open>?booking_id=\<close> and the id.
\<close>

theorem save_step_response:
  assumes "step \<le> 4" "save_step u step p d = (Inr r, d')"
  shows "\<exists>i b. r = Saved i (total_amount b)
                    (Some (''/'' @ [''booking1.html'', ''booking2.html'', ''booking3.html'',
                                    ''booking4.html'', ''checkout.html''] ! step
                           @ ''?booking_id='' @ str_int i)) \<and>
               bookings d' i = Some b \<and> total_amount b = converted_total b \<and>
               (booking_id p = Some i \<or> i = next_booking_id d)"
proof -
  from save_step_success[OF assms(2)] obtain i b where
    "r = Saved i (total_amount b) (next_url_for_step step i)"
    "bookings d' i = Some b" "total_amount b = converted_total b"
    "booking_id p = Some i \<or> i = next_booking_id d"
    by blast
  with next_url_in_range[OF assms(1), of i] show ?thesis by auto
qed

theorem save_step_response_witness:
  "(4::nat) \<le> 4 \<and>
   save_step Anonymous 4 (request None JNull) empty_store =
     (Inr (Saved 1 (Finite 0 (- 1074)) (Some ''/checkout.html?booking_id=1'')),
      (commit 1 ((sample_booking None ''draft'' JNull JNull)
                   \<lparr>review_data := JNull, total_amount := Finite 0 (- 1074)\<rparr>) empty_store)
        \<lparr>next_booking_id := 2\<rparr>) \<and>
   (\<exists>i b. Saved 1 (Finite 0 (- 1074)) (Some ''/checkout.html?booking_id=1'')
            = Saved i (total_amount b)
                (Some (''/'' @ [''booking1.html'', ''booking2.html'', ''booking3.html'',
                                ''booking4.html'', ''checkout.html''] ! 4
                       @ ''?booking_id='' @ str_int i)) \<and>
          bookings ((commit 1 ((sample_booking None ''draft'' JNull JNull)
                      \<lparr>review_data := JNull, total_amount := Finite 0 (- 1074)\<rparr>) empty_store)
                      \<lparr>next_booking_id := 2\<rparr>) i = Some b \<and>
          total_amount b = converted_total b \<and>
          (booking_id (request None JNull) = Some i \<or> i = next_booking_id empty_store))"
  using save_review save_step_response[OF order_refl save_review]
  by blast

text \<open>
  C6: a successful \<open>confirm\<close> leaves the booking \<open>in_progress\<close> with the recomputed
  total, and a second \<open>confirm\<close> right after it gives the same response and leaves the
  store exactly as the first one left it.
\<close>

theorem confirm_booking_idempotent:
  assumes "confirm_booking u p d = (Inr r, d')"
  shows "confirm_booking u p d' = (Inr r, d') \<and>
         (\<exists>i b. booking_id p = Some i \<and> bookings d' i = Some b \<and>
                status b = ''in_progress'' \<and> total_amount b = converted_total b \<and>
                r = ReadyForPayment i (total_amount b)
                      (''/checkout.html?booking_id='' @ str_int i))"
proof (cases u)
  case Anonymous
  with assms show ?thesis by (simp add: handlers_anonymous)
next
  case (LoggedIn uid)
  from get_or_404_cases[of "booking_id p" d] show ?thesis
  proof
    assume "get_or_404 (booking_id p) d = Inl NotFound"
    with assms LoggedIn show ?thesis by (simp add: handlers_not_found)
  next
    assume "\<exists>i c. booking_id p = Some i \<and> bookings d i = Some c \<and>
              get_or_404 (booking_id p) d = Inr (i, c)"
    then obtain i c where ic: "booking_id p = Some i" "bookings d i = Some c" by blast
    show ?thesis
    proof (cases c uid rule: owner_ok_cases)
      case (other a)
      from assms LoggedIn show ?thesis
        by (simp add: handlers_forbidden(1)[OF ic other])
    next
      case ok
      define c' where
        "c' = c\<lparr>user_id := Some uid, status := ''in_progress'',
                 total_amount := converted_total c\<rparr>"
      from assms LoggedIn confirm_booking_ok[OF ic ok]
      have r: "r = ReadyForPayment i (converted_total c)
                     (''/checkout.html?booking_id='' @ str_int i)"
        and d': "d' = commit i c' d"
        by (simp_all add: c'_def)
      have look: "bookings d' i = Some c'" by (simp add: d')
      have own: "user_id c' = None \<or> user_id c' = Some uid" by (simp add: c'_def)
      have tot: "converted_total c' = converted_total c" by (simp add: c'_def)
      have same: "c'\<lparr>user_id := Some uid, status := ''in_progress'',
                     total_amount := converted_total c\<rparr> = c'"
        by (simp add: c'_def)
      have "confirm_booking (LoggedIn uid) p d' = (Inr r, d')"
        by (simp add: confirm_booking_ok[OF ic(1) look own] same tot r commit_same look)
      moreover have "status c' = ''in_progress''" "total_amount c' = converted_total c'"
        by (simp_all add: c'_def)
      ultimately show ?thesis
        using LoggedIn ic(1) look r tot by auto
    qed
  qed
qed

lemma confirm_example:
  "confirm_booking (LoggedIn 7) (request (Some 1) JNull)
     (store_of (sample_booking None ''draft'' price_500 meal_and_insurance)) =
   (Inr (ReadyForPayment 1 (Finite 4710307813392384 (- 43)) ''/checkout.html?booking_id=1''),
    commit 1 ((sample_booking None ''draft'' price_500 meal_and_insurance)
                \<lparr>user_id := Some 7, status := ''in_progress'',
                   total_amount := Finite 4710307813392384 (- 43)\<rparr>)
      (store_of (sample_booking None ''draft'' price_500 meal_and_insurance)))"
  by (subst confirm_booking_ok[where i = 1
        and b = "sample_booking None ''draft'' price_500 meal_and_insurance"])
    (simp_all add: total_example str_int_def str_nat.simps)

theorem confirm_booking_idempotent_witness:
  "confirm_booking (LoggedIn 7) (request (Some 1) JNull)
     (store_of (sample_booking None ''draft'' price_500 meal_and_insurance)) =
   (Inr (ReadyForPayment 1 (Finite 4710307813392384 (- 43)) ''/checkout.html?booking_id=1''),
    commit 1 ((sample_booking None ''draft'' price_500 meal_and_insurance)
                \<lparr>user_id := Some 7, status := ''in_progress'',
                   total_amount := Finite 4710307813392384 (- 43)\<rparr>)
      (store_of (sample_booking None ''draft'' price_500 meal_and_insurance))) \<and>
   confirm_booking (LoggedIn 7) (request (Some 1) JNull)
     (commit 1 ((sample_booking None ''draft'' price_500 meal_and_insurance)
                \<lparr>user_id := Some 7, status := ''in_progress'',
                   total_amount := Finite 4710307813392384 (- 43)\<rparr>)
      (store_of (sample_booking None ''draft'' price_500 meal_and_insurance))) =
   (Inr (ReadyForPayment 1 (Finite 4710307813392384 (- 43)) ''/checkout.html?booking_id=1''),
    commit 1 ((sample_booking None ''draft'' price_500 meal_and_insurance)
                \<lparr>user_id := Some 7, status := ''in_progress'',
                   total_amount := Finite 4710307813392384 (- 43)\<rparr>)
      (store_of (sample_booking None ''draft'' price_500 meal_and_insurance)))"
  using confirm_example confirm_booking_idempotent[OF confirm_example]
  by blast

text \<open>
  C7: when the caller passes the owner check, the settled intent is \<open>succeeded\<close> and its
  amount equals the total in minor units, \<open>confirm_payment\<close> succeeds: it appends exactly
  one Payment, with the recomputed total as its amount, the intent's id as its
  transaction reference and the status \<open>success\<close>; the booking becomes \<open>confirmed\<close>; and
  the response carries the payment id, the transaction reference and a next-page hint.
\<close>

theorem pay_success:
  assumes "booking_id p = Some i" "bookings d i = Some b"
    "user_id b = None \<or> user_id b = Some uid"
    "settle_intent api (payment_intent_id p) = Inr it"
    "intent_status it = ''succeeded''"
    "minor_units (converted_total b) = Inr (intent_amount it)"
  shows "fst (pay api (LoggedIn uid) p d)
           = Inr (PaymentSuccess (next_payment_id d) (intent_id it) i
                    (''/dashboard.html?booking_id='' @ str_int i)) \<and>
         payments (snd (pay api (LoggedIn uid) p d))
           = payments d @
               [(next_payment_id d,
                 \<lparr>payment_booking_id = i, amount = converted_total b,
                  payment_status = ''success'', provider = ''stripe'',
                  txn_ref = intent_id it\<rparr>)] \<and>
         map_option status (bookings (snd (pay api (LoggedIn uid) p d)) i)
           = Some ''confirmed'' \<and>
         map_option total_amount (bookings (snd (pay api (LoggedIn uid) p d)) i)
           = Some (converted_total b)"
  by (simp add: pay_ok[OF assms(1,2,3)] assms(4,5,6))

lemma example_booking_fields:
  "bookings (store_of (sample_booking (Some 7) ''in_progress'' price_500 meal_and_insurance)) 1
     = Some (sample_booking (Some 7) ''in_progress'' price_500 meal_and_insurance)"
  by simp

theorem pay_success_witness:
  "booking_id (pay_request (Some 1) ''pi_1'') = Some 1 \<and>
   bookings (store_of (sample_booking (Some 7) ''in_progress'' price_500 meal_and_insurance)) 1
     = Some (sample_booking (Some 7) ''in_progress'' price_500 meal_and_insurance) \<and>
   user_id (sample_booking (Some 7) ''in_progress'' price_500 meal_and_insurance) = Some 7 \<and>
   settle_intent (answering (succeeded_intent 53550))
       (payment_intent_id (pay_request (Some 1) ''pi_1'')) = Inr (succeeded_intent 53550) \<and>
   minor_units (converted_total
       (sample_booking (Some 7) ''in_progress'' price_500 meal_and_insurance)) = Inr 53550 \<and>
   fst (pay (answering (succeeded_intent 53550)) (LoggedIn 7) (pay_request (Some 1) ''pi_1'')
          (store_of (sample_booking (Some 7) ''in_progress'' price_500 meal_and_insurance)))
     = Inr (PaymentSuccess 1 ''pi_1'' 1 ''/dashboard.html?booking_id=1'') \<and>
   payments
     (snd (pay (answering (succeeded_intent 53550)) (LoggedIn 7) (pay_request (Some 1) ''pi_1'')
             (store_of (sample_booking (Some 7) ''in_progress'' price_500 meal_and_insurance))))
     = [(1, \<lparr>payment_booking_id = 1, amount = Finite 4710307813392384 (- 43),
             payment_status = ''success'', provider = ''stripe'', txn_ref = ''pi_1''\<rparr>)] \<and>
   map_option status
     (bookings
       (snd (pay (answering (succeeded_intent 53550)) (LoggedIn 7) (pay_request (Some 1) ''pi_1'')
               (store_of (sample_booking (Some 7) ''in_progress'' price_500 meal_and_insurance))))
       1)
     = Some ''confirmed''"
  using pay_success[of "pay_request (Some 1) ''pi_1''" 1
      "store_of (sample_booking (Some 7) ''in_progress'' price_500 meal_and_insurance)"
      "sample_booking (Some 7) ''in_progress'' price_500 meal_and_insurance" 7
      "answering (succeeded_intent 53550)" "succeeded_intent 53550"]
  by (simp add: settle_answering total_example minor_units_example str_int_def str_nat.simps)

text \<open>
  C8: when \<open>confirm_payment\<close> fails with an amount mismatch, no Payment is created and
  the status of every booking is what it was before the call.
\<close>

theorem pay_mismatch_changes_nothing:
  assumes "pay api u p d = (Inl AmountMismatch, d')" "bookings d j = Some b"
  shows "payments d' = payments d \<and> map_option status (bookings d' j) = Some (status b)"
  using pay_effect[OF assms(2) assms(1)] by auto

lemma pay_mismatch_example:
  "pay (answering (succeeded_intent 50000)) (LoggedIn 7) (pay_request (Some 1) ''pi_1'')
     (store_of (sample_booking (Some 7) ''in_progress'' price_500 meal_and_insurance))
   = (Inl AmountMismatch,
      store_of (sample_booking (Some 7) ''in_progress'' price_500 meal_and_insurance))"
  by (subst pay_ok[where i = 1
        and b = "sample_booking (Some 7) ''in_progress'' price_500 meal_and_insurance"])
    (simp_all add: settle_answering total_example minor_units_example commit_same)

theorem pay_mismatch_changes_nothing_witness:
  "pay (answering (succeeded_intent 50000)) (LoggedIn 7) (pay_request (Some 1) ''pi_1'')
     (store_of (sample_booking (Some 7) ''in_progress'' price_500 meal_and_insurance))
   = (Inl AmountMismatch,
      store_of (sample_booking (Some 7) ''in_progress'' price_500 meal_and_insurance)) \<and>
   bookings (store_of (sample_booking (Some 7) ''in_progress'' price_500 meal_and_insurance)) 1
     = Some (sample_booking (Some 7) ''in_progress'' price_500 meal_and_insurance) \<and>
   payments (store_of (sample_booking (Some 7) ''in_progress'' price_500 meal_and_insurance))
     = [] \<and>
   map_option status
     (bookings (store_of (sample_booking (Some 7) ''in_progress'' price_500 meal_and_insurance)) 1)
     = Some ''in_progress''"
  using pay_mismatch_example
    pay_mismatch_changes_nothing[OF pay_mismatch_example example_booking_fields]
  by simp

lemma write_slot_read:
  assumes "step \<le> 4"
  shows "\<exists>b3. write_slot step v b = Some b3 \<and> read_slot step b3 = v \<and>
              user_id b3 = user_id b \<and> status b3 = status b"
proof -
  from assms have "step = 0 \<or> step = 1 \<or> step = 2 \<or> step = 3 \<or> step = 4" by arith
  then show ?thesis
    by (elim disjE) (simp_all add: write_slot_def read_slot_def)
qed

lemma read_slot_total:
  "read_slot step (b\<lparr>total_amount := t\<rparr>) = read_slot step b"
  by (simp add: read_slot_def)


text \<open>
  C9: the owner check applies to authenticated callers only. \<open>save_step\<close> by an anonymous
  caller on a booking that is bound to a user succeeds for every step 0 to 4: afterwards
  the store holds, under the booking's id, a row whose addressed slot is the request's
  data and whose total is the recomputed one, with the owner and the status as they
  were; the other rows and the payments are as before, and the response carries that
  total.
\<close>

theorem anonymous_save_step_overwrites:
  assumes "booking_id p = Some i" "i \<noteq> 0" "bookings d i = Some b" "user_id b = Some a"
    "step \<le> 4"
  shows "\<exists>b'. fst (save_step Anonymous step p d)
                 = Inr (Saved i (total_amount b') (next_url_for_step step i)) \<and>
              bookings (snd (save_step Anonymous step p d)) = (bookings d)(i \<mapsto> b') \<and>
              payments (snd (save_step Anonymous step p d)) = payments d \<and>
              read_slot step b' = data p \<and> total_amount b' = converted_total b' \<and>
              user_id b' = Some a \<and> status b' = status b"
proof -
  from write_slot_read[OF assms(5), of "data p" b] obtain b3 where
    b3: "write_slot step (data p) b = Some b3" "read_slot step b3 = data p"
      "user_id b3 = user_id b" "status b3 = status b"
    by blast
  let ?b' = "b3\<lparr>total_amount := converted_total b3\<rparr>"
  have "read_slot step ?b' = data p" using b3(2) by (simp add: read_slot_total)
  with save_step_anonymous_existing[OF assms(1,2,3), of step] assms(4) b3
  have "fst (save_step Anonymous step p d)
                 = Inr (Saved i (total_amount ?b') (next_url_for_step step i)) \<and>
              bookings (snd (save_step Anonymous step p d)) = (bookings d)(i \<mapsto> ?b') \<and>
              payments (snd (save_step Anonymous step p d)) = payments d \<and>
              read_slot step ?b' = data p \<and> total_amount ?b' = converted_total ?b' \<and>
              user_id ?b' = Some a \<and> status ?b' = status b"
    by simp
  then show ?thesis by blast
qed

theorem anonymous_save_step_overwrites_witness:
  "booking_id (request (Some 1) meal_string) = Some 1 \<and>
   (1::int) \<noteq> 0 \<and>
   bookings (store_of (sample_booking (Some 7) ''draft'' JNull JNull)) 1
     = Some (sample_booking (Some 7) ''draft'' JNull JNull) \<and>
   user_id (sample_booking (Some 7) ''draft'' JNull JNull) = Some 7 \<and>
   (3::nat) \<le> 4 \<and>
   fst (save_step Anonymous 3 (request (Some 1) meal_string)
          (store_of (sample_booking (Some 7) ''draft'' JNull JNull)))
     = Inr (Saved 1 (Finite 5629499534213120 (- 48)) (Some ''/booking4.html?booking_id=1'')) \<and>
   bookings (snd (save_step Anonymous 3 (request (Some 1) meal_string)
                    (store_of (sample_booking (Some 7) ''draft'' JNull JNull)))) 1
     = Some ((sample_booking (Some 7) ''draft'' JNull meal_string)
               \<lparr>total_amount := Finite 5629499534213120 (- 48)\<rparr>) \<and>
   read_slot 3 ((sample_booking (Some 7) ''draft'' JNull meal_string)
                  \<lparr>total_amount := Finite 5629499534213120 (- 48)\<rparr>) = meal_string"
proof -
  have ev: "save_step Anonymous 3 (request (Some 1) meal_string)
          (store_of (sample_booking (Some 7) ''draft'' JNull JNull)) =
     (Inr (Saved 1 (Finite 5629499534213120 (- 48)) (Some ''/booking4.html?booking_id=1'')),
      commit 1 ((sample_booking (Some 7) ''draft'' JNull meal_string)
                  \<lparr>total_amount := Finite 5629499534213120 (- 48)\<rparr>)
        (store_of (sample_booking (Some 7) ''draft'' JNull JNull)))"
    by (subst save_step_anonymous_existing[where i = 1
          and b = "sample_booking (Some 7) ''draft'' JNull JNull"])
      (simp_all add: write_slot_sample_3 total_meal_string next_url_for_step_def
        STEP_TO_PAGE_def str_int_def str_nat.simps)
  have rs: "read_slot 3 ((sample_booking (Some 7) ''draft'' JNull meal_string)
                  \<lparr>total_amount := Finite 5629499534213120 (- 48)\<rparr>) = meal_string"
    by (simp add: read_slot_def sample_booking_def)
  from anonymous_save_step_overwrites[of "request (Some 1) meal_string" 1
      "store_of (sample_booking (Some 7) ''draft'' JNull JNull)"
      "sample_booking (Some 7) ''draft'' JNull JNull" 7 3] ev rs
  show ?thesis by simp
qed

text \<open>
  C10: \<open>save_step\<close> without a booking id and with a step beyond 4 reports an invalid step,
  yet the store has gained a new empty draft under a key that was free, and the key
  counter has moved on.
\<close>

theorem invalid_step_leaves_draft:
  assumes "4 < step" "booking_id p = None" "fresh_ids d"
  shows "save_step u step p d =
           (Inl InvalidStep,
            d\<lparr>bookings := (bookings d)(next_booking_id d \<mapsto> new_booking (owner_of u)),
              next_booking_id := next_booking_id d + 1\<rparr>) \<and>
         bookings d (next_booking_id d) = None"
proof -
  from assms(3) have "bookings d (next_booking_id d) = None"
    by (cases "bookings d (next_booking_id d)") (auto simp add: fresh_ids_def)
  moreover from assms(2) have "booking_id p = None \<or> booking_id p = Some 0" by simp
  from save_step_create[OF this, of u step d] assms(1)
  have "save_step u step p d =
           (Inl InvalidStep,
            d\<lparr>bookings := (bookings d)(next_booking_id d \<mapsto> new_booking (owner_of u)),
              next_booking_id := next_booking_id d + 1\<rparr>)"
    by (simp add: write_slot_none commit_def)
  ultimately show ?thesis by simp
qed

theorem invalid_step_leaves_draft_witness:
  "(4::nat) < 5 \<and> booking_id (request None JNull) = None \<and>
   save_step Anonymous 5 (request None JNull) empty_store =
     (Inl InvalidStep,
      empty_store\<lparr>bookings := (bookings empty_store)(1 \<mapsto> new_booking None),
                  next_booking_id := 2\<rparr>) \<and>
   bookings empty_store 1 = None"
  using invalid_step_leaves_draft[of 5 "request None JNull" empty_store Anonymous]
  by (simp add: fresh_ids_def empty_store_def owner_of_def)

end
